theory Spec2Isabelle
  imports Complex_Main "HOL-Library.Log_Nat"
begin

section \<open>Uniswap V2 zapper bot: transaction preparation and position accounting\<close>

text \<open>
  A shallow embedding of the bot's core: the TTL cache \<open>getCachedData\<close>, the ledger
  persistence (\<open>loadPositions\<close>, \<open>savePositions\<close>), the gas price resolver
  (\<open>fetchTxOptionsFromEtherscan\<close>, \<open>fetchTxOptionsFromRPC\<close>, \<open>fetchTxOptions\<close>), the
  slippage engine (\<open>calculatePriceImpact\<close>, \<open>calculateDynamicSlippage\<close>,
  \<open>calculateAmountOut\<close>) and the ledger updates (\<open>updateAndSavePosition\<close>, the
  \<open>execute_zapout\<close> callback).

  Conventions of the embedding.
  \<^item> A thrown exception or rejected promise is \<open>Inl e\<close> of a result \<open>error + 'a\<close>.
  \<^item> A BigInt that holds a wei amount or a pool reserve (a \<open>uint112\<close> on chain) is a
    \<open>nat\<close>; BigInt fees of the gas resolver are \<open>int\<close>. BigInt division raises
    \<open>RangeError\<close> on a zero divisor (\<open>bigint_div\<close>).
  \<^item> A JavaScript Number is a \<open>number\<close>: \<open>Some q\<close> for a finite value \<open>q\<close>, a
    rational, and \<open>None\<close> for \<open>NaN\<close>. Arithmetic propagates \<open>NaN\<close>, and every
    comparison with \<open>NaN\<close> is false. In the gas resolver and the slippage engine,
    whose properties are orders and bounds, the operations are the exact ones
    (\<open>num_sub\<close>, \<open>num_mul\<close>, \<open>num_div\<close>). In the ledger merge, whose result is stored
    and compared, they are the operations of IEEE 754 double precision, each rounded
    to the nearest double (\<open>dbl_add\<close>, \<open>dbl_mul\<close>, \<open>dbl_div\<close>).
  \<^item> External collaborators (HTTP oracle, node RPC, file system, clock, address
    checksumming) are inputs of the functions that call them.
\<close>

subsection \<open>Errors and numbers\<close>

datatype error =
  HttpError | ApiError | NetworkError | RpcError | NumericFault | RangeError
  | WriteError | InvalidAddress | FetchError

type_synonym number = "rat option"

definition num_sub :: "number \<Rightarrow> number \<Rightarrow> number" where
  "num_sub a b = (case a of None \<Rightarrow> None | Some x \<Rightarrow> (case b of None \<Rightarrow> None | Some y \<Rightarrow> Some (x - y)))"

definition num_mul :: "number \<Rightarrow> number \<Rightarrow> number" where
  "num_mul a b = (case a of None \<Rightarrow> None | Some x \<Rightarrow> (case b of None \<Rightarrow> None | Some y \<Rightarrow> Some (x * y)))"

text \<open>
  Division of Numbers never throws; a zero divisor gives \<open>NaN\<close> or an infinity, neither
  of which is a finite number, so both are \<open>None\<close> here.
\<close>

definition num_div :: "number \<Rightarrow> number \<Rightarrow> number" where
  "num_div a b = (case a of None \<Rightarrow> None | Some x \<Rightarrow>
     (case b of None \<Rightarrow> None | Some y \<Rightarrow> if y = 0 then None else Some (x / y)))"

definition Math_abs :: "number \<Rightarrow> number" where
  "Math_abs a = (case a of None \<Rightarrow> None | Some x \<Rightarrow> Some \<bar>x\<bar>)"

definition Math_max :: "number \<Rightarrow> number \<Rightarrow> number" where
  "Math_max a b = (case a of None \<Rightarrow> None | Some x \<Rightarrow> (case b of None \<Rightarrow> None | Some y \<Rightarrow> Some (max x y)))"

definition Math_min :: "number \<Rightarrow> number \<Rightarrow> number" where
  "Math_min a b = (case a of None \<Rightarrow> None | Some x \<Rightarrow> (case b of None \<Rightarrow> None | Some y \<Rightarrow> Some (min x y)))"

definition Math_ceil :: "number \<Rightarrow> number" where
  "Math_ceil a = (case a of None \<Rightarrow> None | Some x \<Rightarrow> Some (of_int \<lceil>x\<rceil>))"

text \<open>\<open>a < b\<close> on Numbers: false as soon as one side is \<open>NaN\<close>.\<close>

definition num_less :: "number \<Rightarrow> number \<Rightarrow> bool" where
  "num_less a b = (case a of None \<Rightarrow> False | Some x \<Rightarrow> (case b of None \<Rightarrow> False | Some y \<Rightarrow> x < y))"

subsection \<open>Double-precision arithmetic\<close>

text \<open>
  \<open>ilog2 x\<close> is the binary exponent of a positive rational: the \<open>k\<close> with
  \<open>2^k \<le> x < 2^(k+1)\<close>, found from the bit lengths of numerator and denominator.
\<close>

definition ilog2 :: "rat \<Rightarrow> int" where
  "ilog2 x =
     (case quotient_of x of (p, q) \<Rightarrow>
        (let k = int (floorlog 2 (nat p)) - int (floorlog 2 (nat q))
         in if 2 powi k \<le> x then k else k - 1))"

text \<open>Rounding to the nearest integer, a tie going to the even one.\<close>

definition round_even :: "rat \<Rightarrow> int" where
  "round_even r =
     (let f = \<lfloor>r\<rfloor>; d = r - of_int f
      in if d < 1 / 2 then f else if 1 / 2 < d then f + 1 else if even f then f else f + 1)"

text \<open>
  \<open>fl x\<close> is the double nearest to \<open>x\<close> (ties to even), were the exponent range
  unbounded above: a significand of 53 bits, and below \<open>2^-1022\<close> the fixed spacing
  \<open>2^-1074\<close> of the subnormal numbers. \<open>to_double\<close> adds the overflow: a result of
  magnitude \<open>2^1024\<close> or more is an infinity, which is not a finite number.
\<close>

definition fl :: "rat \<Rightarrow> rat" where
  "fl x =
     (if x = 0 then 0
      else (let e = max (ilog2 \<bar>x\<bar> - 52) (- 1074)
            in of_int (round_even (x / 2 powi e)) * 2 powi e))"

definition to_double :: "rat \<Rightarrow> number" where
  "to_double x = (if 2 ^ 1024 \<le> \<bar>fl x\<bar> then None else Some (fl x))"

text \<open>
  \<open>a + b\<close>, \<open>a * b\<close> and \<open>a / b\<close> on doubles: the exact result, rounded. A zero divisor
  gives \<open>NaN\<close> or an infinity.
\<close>

definition dbl_add :: "number \<Rightarrow> number \<Rightarrow> number" where
  "dbl_add a b = (case a of None \<Rightarrow> None | Some x \<Rightarrow>
     (case b of None \<Rightarrow> None | Some y \<Rightarrow> to_double (x + y)))"

definition dbl_mul :: "number \<Rightarrow> number \<Rightarrow> number" where
  "dbl_mul a b = (case a of None \<Rightarrow> None | Some x \<Rightarrow>
     (case b of None \<Rightarrow> None | Some y \<Rightarrow> to_double (x * y)))"

definition dbl_div :: "number \<Rightarrow> number \<Rightarrow> number" where
  "dbl_div a b = (case a of None \<Rightarrow> None | Some x \<Rightarrow>
     (case b of None \<Rightarrow> None | Some y \<Rightarrow> if y = 0 then None else to_double (x / y)))"

subsection \<open>Configuration\<close>

text \<open>\<open>Number(b)\<close> of a BigInt.\<close>

definition Number_of :: "int \<Rightarrow> number" where
  "Number_of b = Some (of_int b)"

text \<open>
  The fields of \<open>CONSTANTS\<close> the core reads. Each numeric field is read from the
  environment as \<open>parseInt(...) || d\<close> or \<open>parseFloat(...) || d\<close>, so it is never
  \<open>NaN\<close>: the integer ones are \<open>int\<close>, the fractional ones \<open>rat\<close>.
\<close>

record constants =
  SLIPPAGE_BPS :: int
  CACHE_DURATION_SECONDS :: int
  ENABLE_DYNAMIC_SLIPPAGE :: bool
  MIN_SLIPPAGE_BPS :: int
  MAX_SLIPPAGE_BPS :: int
  GAS_SPEED :: string
  GAS_SPEED_MULTIPLIER :: rat
  PRIORITY_FEE_GWEI :: rat
  MAX_GAS_PRICE_GWEI :: rat
  DEFAULT_GAS_PRICE_GWEI :: rat

text \<open>The values \<open>CONSTANTS\<close> takes when the environment sets none of them.\<close>

definition default_constants :: constants where
  "default_constants =
     \<lparr> SLIPPAGE_BPS = 2000, CACHE_DURATION_SECONDS = 10, ENABLE_DYNAMIC_SLIPPAGE = False,
       MIN_SLIPPAGE_BPS = 50, MAX_SLIPPAGE_BPS = 5000, GAS_SPEED = ''fast'',
       GAS_SPEED_MULTIPLIER = 1, PRIORITY_FEE_GWEI = 2, MAX_GAS_PRICE_GWEI = 200,
       DEFAULT_GAS_PRICE_GWEI = 30 \<rparr>"

datatype log_level = LogInfo | LogWarn | LogError

subsection \<open>Caching\<close>

text \<open>
  \<open>apiCache\<close> is a \<open>Map\<close> from keys to \<open>{ data, timestamp }\<close>. The fetcher is an
  effectful call: \<open>fetcherFunction n\<close> is the outcome of its invocation number \<open>n\<close>
  (counting from 0), and the state carries, beside the cache, how many invocations
  have happened, so that "the fetcher was not invoked" is "the count did not move".
  \<open>now\<close> is the reading of \<open>Date.now()\<close> at the call, in milliseconds.
\<close>

record 'v cache_item =
  data :: 'v
  timestamp :: int

type_synonym ('k, 'v) cache_state = "('k \<rightharpoonup> 'v cache_item) \<times> nat"

definition getCachedData ::
  "constants \<Rightarrow> int \<Rightarrow> 'k \<Rightarrow> (nat \<Rightarrow> error + 'v) \<Rightarrow> ('k, 'v) cache_state
     \<Rightarrow> (error + 'v) \<times> ('k, 'v) cache_state" where
  "getCachedData C now key fetcherFunction s =
     (case s of (apiCache, calls) \<Rightarrow>
       (let cachedItem = apiCache key;
            refetch =
              (case fetcherFunction calls of
                 Inr d \<Rightarrow> (Inr d, (apiCache(key \<mapsto> \<lparr> data = d, timestamp = now \<rparr>), Suc calls))
               | Inl e \<Rightarrow>
                   (case cachedItem of
                      Some it \<Rightarrow> (Inr (data it), (apiCache, Suc calls))
                    | None \<Rightarrow> (Inl e, (apiCache, Suc calls))))
        in case cachedItem of
             Some it \<Rightarrow>
               if now - cache_item.timestamp it < CACHE_DURATION_SECONDS C * 1000
               then (Inr (data it), (apiCache, calls))
               else refetch
           | None \<Rightarrow> refetch))"

text \<open>
  A session of calls for one key, one per clock reading of the list, threading the
  cache; the results in order.
\<close>

fun getCachedData_calls ::
  "constants \<Rightarrow> 'k \<Rightarrow> (nat \<Rightarrow> error + 'v) \<Rightarrow> int list \<Rightarrow> ('k, 'v) cache_state
     \<Rightarrow> (error + 'v) list" where
  "getCachedData_calls C key fetcherFunction [] s = []"
| "getCachedData_calls C key fetcherFunction (now # nows) s =
     (case getCachedData C now key fetcherFunction s of
        (r, s') \<Rightarrow> r # getCachedData_calls C key fetcherFunction nows s')"

subsection \<open>Persistence of the ledger\<close>

text \<open>
  A stored position. \<open>initialEthValue\<close> and \<open>initialMarketCap\<close> are kept as decimal
  strings in the file and read back with \<open>parseFloat\<close>; the record holds the double
  read (\<open>toString\<close> prints a double so that \<open>parseFloat\<close> reads the same double back).
\<close>

record position =
  tokenAddress :: string
  pairAddress :: string
  initialEthValue :: number
  initialMarketCap :: number
  timestamp :: int

text \<open>
  The file system as the ledger sees it: the parsed content of the positions file
  (\<open>None\<close> when it is absent or unreadable, in particular empty or cut short),
  whether \<open>fs.writeFile\<close> succeeds and, when it fails, whether it fails only after it
  has opened the file. \<open>fs.writeFile\<close> writes in place (flag \<open>w\<close>: the file is
  truncated on open, there is no temporary file), so a write that fails after the open
  leaves an empty or partial file, which \<open>loadPositions\<close> cannot parse.
\<close>

record fs_state =
  positions_file :: "position list option"
  writable :: bool
  fails_after_open :: bool

definition loadPositions :: "fs_state \<Rightarrow> position list" where
  "loadPositions fs = (case positions_file fs of Some positions \<Rightarrow> positions | None \<Rightarrow> [])"

definition writeFile :: "fs_state \<Rightarrow> position list \<Rightarrow> (error + unit) \<times> fs_state" where
  "writeFile fs positions =
     (if writable fs then (Inr (), fs\<lparr> positions_file := Some positions \<rparr>)
      else (Inl WriteError,
            if fails_after_open fs then fs\<lparr> positions_file := None \<rparr> else fs))"

text \<open>
  \<open>savePositions\<close> returns what its caller observes (\<open>Inl\<close> would be a rejected
  promise), the file system afterwards and the log lines written.
\<close>

definition savePositions ::
  "fs_state \<Rightarrow> position list \<Rightarrow> (error + unit) \<times> fs_state \<times> log_level list" where
  "savePositions fs positions =
     (case writeFile fs positions of
        (Inr written, fs') \<Rightarrow> (Inr (), fs', [LogInfo])
      | (Inl e, fs') \<Rightarrow> (Inr (), fs', [LogError]))"

subsection \<open>Gas price resolver\<close>

text \<open>
  \<open>x.toFixed(9)\<close> followed by \<open>parseUnits(..., 'gwei')\<close>. \<open>toFixed\<close> prints \<open>NaN\<close> as
  "NaN" and a magnitude of at least \<open>10^21\<close> in exponent notation; \<open>parseUnits\<close> rejects
  both. Otherwise \<open>toFixed\<close> rounds the magnitude to nine decimals, a tie going up.
\<close>

definition toFixed9_gwei :: "number \<Rightarrow> error + int" where
  "toFixed9_gwei x =
     (case x of None \<Rightarrow> Inl NumericFault
      | Some v \<Rightarrow>
          if 10 ^ 21 \<le> \<bar>v\<bar> then Inl NumericFault
          else if v < 0 then Inr (- \<lfloor>(- v) * 10 ^ 9 + 1 / 2\<rfloor>)
          else Inr \<lfloor>v * 10 ^ 9 + 1 / 2\<rfloor>)"

text \<open>
  \<open>parseUnits(x.toString(), 'gwei')\<close> for a configured Number \<open>x\<close>. \<open>toString\<close> prints
  a nonzero magnitude below \<open>10^-6\<close> or of at least \<open>10^21\<close> in exponent notation, which
  \<open>parseUnits\<close> rejects; and \<open>parseUnits\<close> rejects a decimal with more than nine
  fractional digits (a gwei amount that is not a whole number of wei).
\<close>

definition parseUnits_gwei :: "rat \<Rightarrow> error + int" where
  "parseUnits_gwei v =
     (if v \<noteq> 0 \<and> (\<bar>v\<bar> < 1 / 10 ^ 6 \<or> 10 ^ 21 \<le> \<bar>v\<bar>) then Inl NumericFault
      else if of_int \<lfloor>v * 10 ^ 9\<rfloor> = v * 10 ^ 9 then Inr \<lfloor>v * 10 ^ 9\<rfloor>
      else Inl NumericFault)"

definition toLowerChar :: "char \<Rightarrow> char" where
  "toLowerChar c =
     (if (65::nat) \<le> of_char c \<and> of_char c \<le> (90::nat) then char_of (of_char c + (32::nat))
      else c)"

definition toLowerCase :: "string \<Rightarrow> string" where
  "toLowerCase s = map toLowerChar s"

record tx_options =
  gasPrice :: int
  maxFeePerGas :: int
  maxPriorityFeePerGas :: int

text \<open>
  The gas oracle's answer: \<open>response.ok\<close>, \<open>data.status\<close> and the four fields of
  \<open>data.result\<close> after \<open>parseFloat\<close> (\<open>None\<close> for a missing or malformed field).
\<close>

record gas_oracle =
  SafeGasPrice :: number
  ProposeGasPrice :: number
  FastGasPrice :: number
  suggestBaseFee :: number

record etherscan_response =
  ok :: bool
  status :: string
  result :: gas_oracle

text \<open>
  \<open>response\<close> is the outcome of \<open>fetch(url)\<close> and \<open>response.json()\<close>: \<open>Inl\<close> when
  either throws.
\<close>

definition fetchTxOptionsFromEtherscan ::
  "constants \<Rightarrow> error + etherscan_response \<Rightarrow> error + tx_options" where
  "fetchTxOptionsFromEtherscan C response =
     (case response of Inl e \<Rightarrow> Inl e
      | Inr resp \<Rightarrow>
          if \<not> ok resp then Inl HttpError
          else if status resp \<noteq> ''1'' then Inl ApiError
          else
            (let safeGasPriceGwei = SafeGasPrice (result resp);
                 proposeGasPriceGwei = ProposeGasPrice (result resp);
                 fastGasPriceGwei = FastGasPrice (result resp);
                 baseFeeGwei = suggestBaseFee (result resp);
                 speed = toLowerCase (GAS_SPEED C);
                 selected =
                   (if speed = ''safe'' then safeGasPriceGwei
                    else if speed = ''standard'' then proposeGasPriceGwei
                    else if speed = ''fast'' then fastGasPriceGwei
                    else if speed = ''instant'' then num_mul fastGasPriceGwei (Some (12 / 10))
                    else fastGasPriceGwei);
                 selectedGasPriceGwei = num_mul selected (Some (GAS_SPEED_MULTIPLIER C));
                 rawPriorityFeeGwei =
                   Math_max (Some (PRIORITY_FEE_GWEI C)) (num_sub selectedGasPriceGwei baseFeeGwei);
                 cappedMaxFeeGwei = Math_min selectedGasPriceGwei (Some (MAX_GAS_PRICE_GWEI C));
                 priorityFeeGwei = Math_min rawPriorityFeeGwei cappedMaxFeeGwei
             in case toFixed9_gwei cappedMaxFeeGwei of
                  Inl e \<Rightarrow> Inl e
                | Inr maxFee \<Rightarrow>
                    (case toFixed9_gwei priorityFeeGwei of
                       Inl e \<Rightarrow> Inl e
                     | Inr maxPriorityFee \<Rightarrow>
                         Inr \<lparr> gasPrice = maxFee, maxFeePerGas = maxFee,
                               maxPriorityFeePerGas = maxPriorityFee \<rparr>)))"

text \<open>
  \<open>provider.getFeeData()\<close>: each field is a BigInt or \<open>null\<close> (\<open>None\<close>). A \<open>0n\<close> is
  falsy like \<open>null\<close>, in \<open>!feeData.maxFeePerGas\<close> and in \<open>... || parseUnits(...)\<close>.
\<close>

record fee_data =
  fee_maxFeePerGas :: "int option"
  fee_maxPriorityFeePerGas :: "int option"

definition fetchTxOptionsFromRPC :: "constants \<Rightarrow> error + fee_data \<Rightarrow> error + tx_options" where
  "fetchTxOptionsFromRPC C fee =
     (case fee of Inl e \<Rightarrow> Inl e
      | Inr feeData \<Rightarrow>
          (case fee_maxFeePerGas feeData of
             None \<Rightarrow> Inl RpcError
           | Some fee_max \<Rightarrow>
               if fee_max = 0 then Inl RpcError
               else
                 (case parseUnits_gwei (MAX_GAS_PRICE_GWEI C) of
                    Inl e \<Rightarrow> Inl e
                  | Inr maxGasPrice \<Rightarrow>
                      (let maxFee = (if fee_max > maxGasPrice then maxGasPrice else fee_max);
                           configured =
                             (case fee_maxPriorityFeePerGas feeData of
                                None \<Rightarrow> parseUnits_gwei (PRIORITY_FEE_GWEI C)
                              | Some p \<Rightarrow>
                                  if p = 0 then parseUnits_gwei (PRIORITY_FEE_GWEI C) else Inr p)
                       in case configured of
                            Inl e \<Rightarrow> Inl e
                          | Inr p \<Rightarrow>
                              Inr \<lparr> gasPrice = maxFee, maxFeePerGas = maxFee,
                                    maxPriorityFeePerGas = (if p > maxFee then maxFee else p) \<rparr>))))"

text \<open>
  The static default of the last tier: the two conversions stand after both
  \<open>try\<close> blocks, so what they throw leaves \<open>fetchTxOptions\<close>.
\<close>

definition staticTxOptions :: "constants \<Rightarrow> error + tx_options" where
  "staticTxOptions C =
     (case parseUnits_gwei (DEFAULT_GAS_PRICE_GWEI C) of
        Inl e \<Rightarrow> Inl e
      | Inr defaultGasPrice \<Rightarrow>
          (case parseUnits_gwei (PRIORITY_FEE_GWEI C) of
             Inl e \<Rightarrow> Inl e
           | Inr defaultPriorityFee \<Rightarrow>
               Inr \<lparr> gasPrice = defaultGasPrice, maxFeePerGas = defaultGasPrice,
                     maxPriorityFeePerGas = defaultPriorityFee \<rparr>))"

datatype tier = Etherscan | RPC | StaticDefault

text \<open>
  \<open>fetchTxOptions\<close> returns its result and the tiers it invoked, in order
  (the node is queried only in the handler of the first \<open>try\<close>).
\<close>

definition fetchTxOptions ::
  "constants \<Rightarrow> error + etherscan_response \<Rightarrow> error + fee_data
     \<Rightarrow> (error + tx_options) \<times> tier list" where
  "fetchTxOptions C response fee =
     (case fetchTxOptionsFromEtherscan C response of
        Inr opts \<Rightarrow> (Inr opts, [Etherscan])
      | Inl e1 \<Rightarrow>
          (case fetchTxOptionsFromRPC C fee of
             Inr opts \<Rightarrow> (Inr opts, [Etherscan, RPC])
           | Inl e2 \<Rightarrow> (staticTxOptions C, [Etherscan, RPC, StaticDefault])))"

subsection \<open>Slippage engine\<close>

definition bigint_div :: "nat \<Rightarrow> nat \<Rightarrow> error + nat" where
  "bigint_div a b = (if b = 0 then Inl RangeError else Inr (a div b))"

definition calculatePriceImpact :: "nat \<Rightarrow> nat \<Rightarrow> nat \<Rightarrow> error + number" where
  "calculatePriceImpact amountIn reserveIn reserveOut =
     (if amountIn = 0 \<or> reserveIn = 0 \<or> reserveOut = 0 then Inr (Some 0)
      else
        (let amountInWithFee = amountIn * 997;
             numerator = amountInWithFee * reserveOut;
             denominator = reserveIn * 1000 + amountInWithFee
         in case bigint_div numerator denominator of
              Inl e \<Rightarrow> Inl e
            | Inr amountOut \<Rightarrow>
                (let priceBefore = num_div (Number_of (int reserveOut)) (Number_of (int reserveIn));
                     priceAfter = num_div (Number_of (int reserveOut - int amountOut))
                                          (Number_of (int (reserveIn + amountIn)))
                 in Inr (num_mul (Math_abs (num_div (num_sub priceAfter priceBefore) priceBefore))
                                 (Some 100)))))"

definition calculateDynamicSlippage ::
  "constants \<Rightarrow> nat \<Rightarrow> nat \<Rightarrow> nat \<Rightarrow> error + number" where
  "calculateDynamicSlippage C reserveIn reserveOut amountIn =
     (if \<not> ENABLE_DYNAMIC_SLIPPAGE C then Inr (Some (of_int (SLIPPAGE_BPS C)))
      else
        (case calculatePriceImpact amountIn reserveIn reserveOut of
           Inl e \<Rightarrow> Inl e
         | Inr priceImpact \<Rightarrow>
             Inr (if num_less priceImpact (Some (1 / 2)) then Some (of_int (MIN_SLIPPAGE_BPS C))
                  else if num_less priceImpact (Some 2) then Some 100
                  else if num_less priceImpact (Some 5) then Some 200
                  else if num_less priceImpact (Some 10) then Some 500
                  else Math_min (Some (of_int (MAX_SLIPPAGE_BPS C)))
                                (Math_ceil (num_mul priceImpact (Some 100))))))"

definition calculateAmountOut :: "nat \<Rightarrow> nat \<Rightarrow> nat \<Rightarrow> error + nat" where
  "calculateAmountOut amountIn reserveIn reserveOut =
     (if amountIn = 0 then Inr 0
      else
        (let amountInWithFee = amountIn * 997;
             numerator = amountInWithFee * reserveOut;
             denominator = reserveIn * 1000 + amountInWithFee
         in bigint_div numerator denominator))"

subsection \<open>Ledger updates\<close>

text \<open>
  \<open>getCachedPairInfo\<close> as \<open>updateAndSavePosition\<close> uses it: the pair address and
  \<open>parseFloat(pairInfo.marketCap)\<close>.
\<close>

record pair_info =
  pair_pairAddress :: string
  pair_marketCap :: number

text \<open>
  \<open>positions.findIndex(p => getAddress(p.tokenAddress) === getAddress(tokenAddress))\<close>.
  \<open>getAddress\<close> (the checksummed form of an address; it throws on a string that is
  not one) is an input. \<open>None\<close> is JavaScript's \<open>-1\<close>.
\<close>

fun findIndex ::
  "(string \<Rightarrow> error + string) \<Rightarrow> string \<Rightarrow> position list \<Rightarrow> error + nat option" where
  "findIndex getAddress tokenAddr [] = Inr None"
| "findIndex getAddress tokenAddr (p # ps) =
     (case getAddress (tokenAddress p) of
        Inl e \<Rightarrow> Inl e
      | Inr a \<Rightarrow>
          (case getAddress tokenAddr of
             Inl e \<Rightarrow> Inl e
           | Inr b \<Rightarrow>
               if a = b then Inr (Some 0)
               else (case findIndex getAddress tokenAddr ps of
                       Inl e \<Rightarrow> Inl e
                     | Inr None \<Rightarrow> Inr None
                     | Inr (Some i) \<Rightarrow> Inr (Some (Suc i)))))"

text \<open>
  \<open>ethAmount\<close> is \<open>parseFloat\<close> of the amount string (\<open>to_double\<close> of the decimal
  it spells), \<open>now\<close> is \<open>Date.now()\<close>, \<open>pairInfoResult\<close> the outcome of
  \<open>getCachedPairInfo(tokenAddress)\<close>.
\<close>

definition updateAndSavePosition ::
  "(string \<Rightarrow> error + string) \<Rightarrow> int \<Rightarrow> error + pair_info \<Rightarrow> string \<Rightarrow> number \<Rightarrow> fs_state
     \<Rightarrow> (error + unit) \<times> fs_state" where
  "updateAndSavePosition getAddress now pairInfoResult tokenAddr ethAmount fs =
     (let positions = loadPositions fs
      in case pairInfoResult of
           Inl e \<Rightarrow> (Inl e, fs)
         | Inr pairInfo \<Rightarrow>
             (case findIndex getAddress tokenAddr positions of
                Inl e \<Rightarrow> (Inl e, fs)
              | Inr (Some existingIndex) \<Rightarrow>
                  (let pos = positions ! existingIndex;
                       oldEth = initialEthValue pos;
                       newEth = ethAmount;
                       oldMCap = initialMarketCap pos;
                       newMCap = pair_marketCap pairInfo;
                       totalEth = dbl_add oldEth newEth;
                       merged = pos\<lparr> initialMarketCap :=
                                      dbl_div (dbl_add (dbl_mul oldMCap oldEth) (dbl_mul newMCap newEth))
                                              totalEth,
                                    initialEthValue := totalEth,
                                    timestamp := now \<rparr>
                   in case savePositions fs (positions[existingIndex := merged]) of
                        (r, fs', logged) \<Rightarrow> (r, fs'))
              | Inr None \<Rightarrow>
                  (case savePositions fs
                          (positions @
                             [\<lparr> tokenAddress = tokenAddr, pairAddress = pair_pairAddress pairInfo,
                                initialEthValue = ethAmount,
                                initialMarketCap = pair_marketCap pairInfo,
                                timestamp = now \<rparr>]) of
                     (r, fs', logged) \<Rightarrow> (r, fs'))))"

text \<open>\<open>xs[i]\<close> of an array: \<open>undefined\<close> (\<open>None\<close>) outside the range.\<close>

definition array_get :: "'a list \<Rightarrow> int \<Rightarrow> 'a option" where
  "array_get xs i = (if 0 \<le> i \<and> i < int (length xs) then Some (xs ! nat i) else None)"

text \<open>
  The array after \<open>xs.splice(start, 1)\<close>: a negative \<open>start\<close> counts from the end,
  a \<open>start\<close> past the end removes nothing.
\<close>

definition splice1 :: "'a list \<Rightarrow> int \<Rightarrow> 'a list" where
  "splice1 xs start =
     (let len = int (length xs);
          from = (if start < 0 then max (len + start) 0 else min start len)
      in take (nat from) xs @ drop (Suc (nat from)) xs)"

record session =
  positionIndex :: int

text \<open>
  The ledger side of the \<open>execute_zapout:<percentage>\<close> callback. \<open>onchain position\<close>
  is the outcome of the on-chain steps between the two reads of the ledger (balance
  check, approval, zap-out, confirmation): when one throws, the handler's \<open>catch\<close>
  reports it and the ledger is not touched. No other handler writes the file between
  the two reads.
\<close>

definition execute_zapout ::
  "int \<Rightarrow> (position \<Rightarrow> error + unit) \<Rightarrow> session \<Rightarrow> fs_state \<Rightarrow> session \<times> fs_state" where
  "execute_zapout percentage onchain sess fs =
     (let positions = loadPositions fs
      in case array_get positions (positionIndex sess) of
           None \<Rightarrow> (sess, fs)
         | Some position \<Rightarrow>
             (case onchain position of
                Inl e \<Rightarrow> (sess, fs)
              | Inr done_ok \<Rightarrow>
                  (let newPositions = loadPositions fs;
                       kept = (if percentage = 100
                               then splice1 newPositions (positionIndex sess)
                               else newPositions);
                       sess' = (if percentage = 100
                                then sess\<lparr> positionIndex := max 0 (positionIndex sess - 1) \<rparr>
                                else sess)
                   in case savePositions fs kept of (r, fs', logged) \<Rightarrow> (sess', fs'))))"

text \<open>
  The callback takes the exit fraction as a percentage; in basis points it is a
  hundred times that, so \<open>10000\<close> bps is the \<open>100\<close> the handler compares with.
\<close>

definition exitFractionBps :: "int \<Rightarrow> int" where
  "exitFractionBps percentage = percentage * 100"

text \<open>
  The freshness test of \<open>getCachedData\<close>:
  \<open>cachedItem && (now - cachedItem.timestamp) < CACHE_DURATION_SECONDS * 1000\<close>.
\<close>

definition cache_fresh :: "constants \<Rightarrow> int \<Rightarrow> 'v cache_item option \<Rightarrow> bool" where
  "cache_fresh C now cachedItem =
     (case cachedItem of None \<Rightarrow> False
      | Some it \<Rightarrow> now - cache_item.timestamp it < CACHE_DURATION_SECONDS C * 1000)"

subsection \<open>Example inputs\<close>

text \<open>
  The default configuration with dynamic slippage switched on.
\<close>

definition dynamic_constants :: constants where
  "dynamic_constants = default_constants\<lparr> ENABLE_DYNAMIC_SLIPPAGE := True \<rparr>"

text \<open>
  A fetcher whose first invocation succeeds and every later one fails.
\<close>

definition once_then_fail :: "nat \<Rightarrow> error + int" where
  "once_then_fail n = (if n = 0 then Inr 42 else Inl NetworkError)"

text \<open>
  Two stored positions, and file systems that hold one or both of them. The
  read-only one rejects every write before it opens the file; the failing disk opens
  the file and then fails.
\<close>

definition tokenA_position :: position where
  "tokenA_position =
     \<lparr> tokenAddress = ''0xA'', pairAddress = ''0xPA'', initialEthValue = Some 1,
       initialMarketCap = Some 100, timestamp = 1000 \<rparr>"

definition tokenB_position :: position where
  "tokenB_position =
     \<lparr> tokenAddress = ''0xB'', pairAddress = ''0xPB'', initialEthValue = Some 3,
       initialMarketCap = Some 70, timestamp = 1500 \<rparr>"

definition two_positions_fs :: fs_state where
  "two_positions_fs =
     \<lparr> positions_file = Some [tokenA_position, tokenB_position], writable = True,
       fails_after_open = False \<rparr>"

definition reversed_positions_fs :: fs_state where
  "reversed_positions_fs =
     \<lparr> positions_file = Some [tokenB_position, tokenA_position], writable = True,
       fails_after_open = False \<rparr>"

definition tokenB_fs :: fs_state where
  "tokenB_fs =
     \<lparr> positions_file = Some [tokenB_position], writable = True, fails_after_open = False \<rparr>"

text \<open>
  The doubles nearest to \<open>0.001\<close> and \<open>0.003\<close> (what \<open>parseFloat\<close> reads from the amount
  presets "0.001" and "0.003"), and a ledger whose second position was entered with
  \<open>0.001\<close> ETH at a market cap of \<open>100\<close>.
\<close>

definition dbl_0_001 :: rat where
  "dbl_0_001 = 1152921504606847 / 1152921504606846976"

definition dbl_0_003 :: rat where
  "dbl_0_003 = 3458764513820541 / 1152921504606846976"

definition preset_position :: position where
  "preset_position =
     \<lparr> tokenAddress = ''0xA'', pairAddress = ''0xPA'', initialEthValue = Some dbl_0_001,
       initialMarketCap = Some 100, timestamp = 1000 \<rparr>"

definition preset_fs :: fs_state where
  "preset_fs =
     \<lparr> positions_file = Some [tokenB_position, preset_position], writable = True,
       fails_after_open = False \<rparr>"

definition readonly_fs :: fs_state where
  "readonly_fs =
     \<lparr> positions_file = Some [tokenA_position], writable = False, fails_after_open = False \<rparr>"

definition failing_disk_fs :: fs_state where
  "failing_disk_fs =
     \<lparr> positions_file = Some [tokenA_position], writable = False, fails_after_open = True \<rparr>"

text \<open>
  A stand-in for \<open>getAddress\<close> in the examples: it rejects the empty string and
  identifies addresses that differ in letter case only.
\<close>

definition getAddress_lower :: "string \<Rightarrow> error + string" where
  "getAddress_lower s = (if s = [] then Inl InvalidAddress else Inr (toLowerCase s))"

text \<open>
  An answer of the gas oracle: 20, 21 and 22 gwei for the three speeds over a base
  fee of 21.9 gwei.
\<close>

definition oracle_example :: "error + etherscan_response" where
  "oracle_example = Inr \<lparr> ok = True, status = ''1'',
      result = \<lparr> SafeGasPrice = Some 20, ProposeGasPrice = Some 21, FastGasPrice = Some 22,
                 suggestBaseFee = Some (219 / 10) \<rparr> \<rparr>"

section \<open>Properties\<close>

subsection \<open>Caching\<close>

lemma getCachedData_hit:
  "apiCache key = Some it \<Longrightarrow> cache_fresh C now (Some it) \<Longrightarrow>
   getCachedData C now key f (apiCache, n) = (Inr (data it), (apiCache, n))"
  by (simp add: getCachedData_def cache_fresh_def)

lemma getCachedData_refetch_ok:
  "\<not> cache_fresh C now (apiCache key) \<Longrightarrow> f n = Inr d \<Longrightarrow>
   getCachedData C now key f (apiCache, n)
     = (Inr d, (apiCache(key \<mapsto> \<lparr> data = d, timestamp = now \<rparr>), Suc n))"
  by (simp add: getCachedData_def cache_fresh_def split: option.splits)

lemma getCachedData_stale:
  "apiCache key = Some it \<Longrightarrow> \<not> cache_fresh C now (Some it) \<Longrightarrow> f n = Inl e \<Longrightarrow>
   getCachedData C now key f (apiCache, n) = (Inr (data it), (apiCache, Suc n))"
  by (simp add: getCachedData_def cache_fresh_def)

lemma getCachedData_fail:
  "apiCache key = None \<Longrightarrow> f n = Inl e \<Longrightarrow>
   getCachedData C now key f (apiCache, n) = (Inl e, (apiCache, Suc n))"
  by (simp add: getCachedData_def)

text \<open>
  Once the key has an entry and the fetcher keeps failing, every call returns the
  entry's value and leaves the cache as it is, whatever the clock reads.
\<close>

lemma getCachedData_served:
  assumes "apiCache key = Some it" and "\<forall>m\<ge>n. \<exists>e. f m = Inl e"
  shows "\<exists>n'\<ge>n. getCachedData C now key f (apiCache, n) = (Inr (data it), (apiCache, n'))"
proof (cases "cache_fresh C now (Some it)")
  case True
  with assms(1) show ?thesis by (auto simp: getCachedData_hit)
next
  case False
  from assms(2) obtain e where "f n = Inl e" by blast
  with assms(1) False have
    "getCachedData C now key f (apiCache, n) = (Inr (data it), (apiCache, Suc n))"
    by (rule getCachedData_stale)
  then show ?thesis by (intro exI [of _ "Suc n"]) simp
qed

lemma getCachedData_calls_served:
  "apiCache key = Some it \<Longrightarrow> \<forall>m\<ge>n. \<exists>e. f m = Inl e \<Longrightarrow>
   getCachedData_calls C key f nows (apiCache, n) = replicate (length nows) (Inr (data it))"
proof (induction nows arbitrary: n)
  case Nil
  then show ?case by simp
next
  case (Cons now nows)
  from getCachedData_served [of apiCache key it n f C now] Cons.prems obtain n' where
    n': "n \<le> n'" and
    step: "getCachedData C now key f (apiCache, n) = (Inr (data it), (apiCache, n'))"
    by blast
  from Cons.prems(2) n' have "\<forall>m\<ge>n'. \<exists>e. f m = Inl e" by auto
  with Cons.IH [OF Cons.prems(1)] have
    "getCachedData_calls C key f nows (apiCache, n') = replicate (length nows) (Inr (data it))"
    by blast
  with step show ?case by simp
qed

text \<open>
  Claim C5: \<open>getCachedData\<close> returns a fresh entry's value without invoking the
  fetcher (the invocation count and the cache stay as they are); otherwise it invokes
  the fetcher once, and on success stores the result under the key with the current
  time and returns it; on failure it returns the stale entry's value when there is one
  and propagates the failure when there is none. A fetcher that succeeds at its first
  invocation and fails at every later one yields the first value at that call and at
  every later call for the key, at any clock readings.
\<close>

theorem getCachedData_contract:
  "(apiCache key = Some it \<and> cache_fresh C now (Some it) \<longrightarrow>
      getCachedData C now key f (apiCache, n) = (Inr (data it), (apiCache, n)))
   \<and> (\<not> cache_fresh C now (apiCache key) \<and> f n = Inr d \<longrightarrow>
      getCachedData C now key f (apiCache, n)
        = (Inr d, (apiCache(key \<mapsto> \<lparr> data = d, timestamp = now \<rparr>), Suc n)))
   \<and> (apiCache key = Some it \<and> \<not> cache_fresh C now (Some it) \<and> f n = Inl e \<longrightarrow>
      getCachedData C now key f (apiCache, n) = (Inr (data it), (apiCache, Suc n)))
   \<and> (apiCache key = None \<and> f n = Inl e \<longrightarrow>
      getCachedData C now key f (apiCache, n) = (Inl e, (apiCache, Suc n)))
   \<and> (\<not> cache_fresh C now (apiCache key) \<and> f n = Inr d \<and> (\<forall>m>n. \<exists>e'. f m = Inl e') \<longrightarrow>
      getCachedData_calls C key f (now # nows) (apiCache, n)
        = replicate (Suc (length nows)) (Inr d))"
proof (intro conjI impI)
  assume a: "\<not> cache_fresh C now (apiCache key) \<and> f n = Inr d \<and> (\<forall>m>n. \<exists>e'. f m = Inl e')"
  then have first: "getCachedData C now key f (apiCache, n)
      = (Inr d, (apiCache(key \<mapsto> \<lparr> data = d, timestamp = now \<rparr>), Suc n))"
    by (simp add: getCachedData_refetch_ok)
  from a have later: "\<forall>m\<ge>Suc n. \<exists>e'. f m = Inl e'" by (simp add: Suc_le_eq)
  have "getCachedData_calls C key f nows (apiCache(key \<mapsto> \<lparr> data = d, timestamp = now \<rparr>), Suc n)
      = replicate (length nows) (Inr (data \<lparr> data = d, timestamp = now \<rparr>))"
    using later by (intro getCachedData_calls_served) simp_all
  with first show "getCachedData_calls C key f (now # nows) (apiCache, n)
        = replicate (Suc (length nows)) (Inr d)"
    by simp
qed (simp_all add: getCachedData_hit getCachedData_refetch_ok getCachedData_stale getCachedData_fail)

theorem getCachedData_contract_witness:
  "getCachedData default_constants 5000 ''txOptions'' once_then_fail
      ([''txOptions'' \<mapsto> \<lparr> data = 7, timestamp = 0 \<rparr>], 1)
     = (Inr 7, ([''txOptions'' \<mapsto> \<lparr> data = 7, timestamp = 0 \<rparr>], 1))
   \<and> getCachedData default_constants 20000 ''txOptions'' once_then_fail
      ([''txOptions'' \<mapsto> \<lparr> data = 7, timestamp = 0 \<rparr>], 1)
     = (Inr 7, ([''txOptions'' \<mapsto> \<lparr> data = 7, timestamp = 0 \<rparr>], 2))
   \<and> getCachedData default_constants 20000 ''ethPrice'' once_then_fail
      ([''txOptions'' \<mapsto> \<lparr> data = 7, timestamp = 0 \<rparr>], 1)
     = (Inl NetworkError, ([''txOptions'' \<mapsto> \<lparr> data = 7, timestamp = 0 \<rparr>], 2))
   \<and> getCachedData_calls default_constants ''txOptions'' once_then_fail
        [0, 5000, 20000, 40000] (Map.empty, 0)
     = [Inr 42, Inr 42, Inr 42, Inr 42]"
proof -
  let ?cache = "[''txOptions'' \<mapsto> \<lparr> data = 7::int, timestamp = 0 \<rparr>]"
  note defs = cache_fresh_def default_constants_def once_then_fail_def
  have hit: "getCachedData default_constants 5000 ''txOptions'' once_then_fail (?cache, 1)
      = (Inr 7, (?cache, 1))"
    using getCachedData_contract [where C = default_constants and now = 5000
        and key = "''txOptions''" and f = once_then_fail and n = 1
        and it = "\<lparr> data = 7, timestamp = 0 \<rparr>" and apiCache = ?cache]
    by (simp add: defs)
  have stale: "getCachedData default_constants 20000 ''txOptions'' once_then_fail (?cache, 1)
      = (Inr 7, (?cache, 2))"
    using getCachedData_contract [where C = default_constants and now = 20000
        and key = "''txOptions''" and f = once_then_fail and n = 1 and e = NetworkError
        and it = "\<lparr> data = 7, timestamp = 0 \<rparr>" and apiCache = ?cache]
    by (simp add: defs)
  have fail: "getCachedData default_constants 20000 ''ethPrice'' once_then_fail (?cache, 1)
      = (Inl NetworkError, (?cache, 2))"
    using getCachedData_contract [where C = default_constants and now = 20000
        and key = "''ethPrice''" and f = once_then_fail and n = 1 and e = NetworkError
        and apiCache = ?cache]
    by (simp add: defs)
  have serve: "getCachedData_calls default_constants ''txOptions'' once_then_fail
        [0, 5000, 20000, 40000] (Map.empty, 0)
      = [Inr 42, Inr 42, Inr 42, Inr 42]"
    using getCachedData_contract [where C = default_constants and now = 0
        and key = "''txOptions''" and f = once_then_fail and n = 0 and d = 42
        and nows = "[5000, 20000, 40000]" and apiCache = Map.empty]
    by (simp add: defs del: getCachedData_calls.simps)
  from hit stale fail serve show ?thesis by blast
qed

subsection \<open>Persistence\<close>

lemma savePositions_ok:
  "writable fs \<Longrightarrow>
   savePositions fs positions = (Inr (), fs\<lparr> positions_file := Some positions \<rparr>, [LogInfo])"
  by (simp add: savePositions_def writeFile_def)

lemma savePositions_failed:
  "fst (writeFile fs positions) = Inl e \<Longrightarrow>
   savePositions fs positions = (Inr (), snd (writeFile fs positions), [LogError])"
  by (cases "writeFile fs positions") (simp add: savePositions_def)

text \<open>
  Claim C3, as amended: when the durable write fails (\<open>fs.writeFile\<close> throws),
  \<open>savePositions\<close> does not surface the failure to its caller: it catches it, logs it at
  error level and completes normally.
\<close>

theorem savePositions_logs_and_returns:
  "fst (writeFile fs positions) = Inl e \<Longrightarrow>
   fst (savePositions fs positions) = Inr ()
   \<and> snd (snd (savePositions fs positions)) = [LogError]"
  by (simp add: savePositions_failed)

theorem savePositions_logs_and_returns_witness:
  "fst (writeFile readonly_fs [tokenB_position]) = Inl WriteError
   \<and> fst (savePositions readonly_fs [tokenB_position]) = Inr ()
   \<and> snd (snd (savePositions readonly_fs [tokenB_position])) = [LogError]
   \<and> fst (writeFile failing_disk_fs [tokenB_position]) = Inl WriteError
   \<and> fst (savePositions failing_disk_fs [tokenB_position]) = Inr ()
   \<and> snd (snd (savePositions failing_disk_fs [tokenB_position])) = [LogError]"
proof -
  have ro: "fst (writeFile readonly_fs [tokenB_position]) = Inl WriteError"
    by (simp add: writeFile_def readonly_fs_def)
  have fd: "fst (writeFile failing_disk_fs [tokenB_position]) = Inl WriteError"
    by (simp add: writeFile_def failing_disk_fs_def)
  from ro fd savePositions_logs_and_returns [OF ro] savePositions_logs_and_returns [OF fd]
  show ?thesis by blast
qed

text \<open>
  As stated the claim fails: the \<open>catch\<close> of \<open>savePositions\<close> only logs, so a
  failed write is not surfaced to the caller.
\<close>

theorem savePositions_swallows_write_failure:
  "\<not> (\<forall>fs positions. fst (writeFile fs positions) = Inl WriteError \<longrightarrow>
          (\<exists>e. fst (savePositions fs positions) = Inl e))"
proof
  assume "\<forall>fs positions. fst (writeFile fs positions) = Inl WriteError \<longrightarrow>
          (\<exists>e. fst (savePositions fs positions) = Inl e)"
  then have "fst (writeFile readonly_fs [tokenB_position]) = Inl WriteError \<longrightarrow>
          (\<exists>e. fst (savePositions readonly_fs [tokenB_position]) = Inl e)"
    by blast
  then show False
    by (simp add: writeFile_def savePositions_def readonly_fs_def)
qed

text \<open>
  What the file holds after a failed write is what the write left: the old ledger when
  the write failed before opening the file, nothing readable when it failed after.
\<close>

lemma savePositions_failed_before_open:
  "savePositions readonly_fs [tokenB_position] = (Inr (), readonly_fs, [LogError])"
  by (simp add: savePositions_def writeFile_def readonly_fs_def)

lemma savePositions_failed_after_open:
  "loadPositions failing_disk_fs = [tokenA_position]
   \<and> fst (savePositions failing_disk_fs [tokenA_position, tokenB_position]) = Inr ()
   \<and> loadPositions (fst (snd (savePositions failing_disk_fs [tokenA_position, tokenB_position])))
       = []"
  by (simp add: savePositions_def writeFile_def loadPositions_def failing_disk_fs_def)

subsection \<open>Gas price resolver\<close>

text \<open>
  Rounding to nine decimals is monotone, so the order of two Numbers survives the
  conversion to wei.
\<close>

lemma toFixed9_gwei_mono:
  assumes "toFixed9_gwei (Some v) = Inr a" and "toFixed9_gwei (Some w) = Inr b" and "v \<le> w"
  shows "a \<le> b"
proof -
  define na pa nb pb where "na = \<lfloor>(- v) * 10 ^ 9 + 1 / 2\<rfloor>" and "pa = \<lfloor>v * 10 ^ 9 + 1 / 2\<rfloor>"
    and "nb = \<lfloor>(- w) * 10 ^ 9 + 1 / 2\<rfloor>" and "pb = \<lfloor>w * 10 ^ 9 + 1 / 2\<rfloor>"
  have a: "a = (if v < 0 then - na else pa)"
    using assms(1) unfolding na_def pa_def toFixed9_gwei_def
    by (simp split: if_splits)
  have b: "b = (if w < 0 then - nb else pb)"
    using assms(2) unfolding nb_def pb_def toFixed9_gwei_def
    by (simp split: if_splits)
  have neg: "nb \<le> na"
    unfolding na_def nb_def using assms(3) by (intro floor_mono) simp
  have pos: "pa \<le> pb"
    unfolding pa_def pb_def using assms(3) by (intro floor_mono) simp
  have na0: "0 \<le> na" if "v < 0"
    unfolding na_def using that by (simp only: zero_le_floor) simp
  have pb0: "0 \<le> pb" if "0 \<le> w"
    unfolding pb_def using that by (simp only: zero_le_floor) simp
  consider "w < 0" | "v < 0" "0 \<le> w" | "0 \<le> v"
    by linarith
  then show ?thesis
  proof cases
    case 1
    with assms(3) have "v < 0" by simp
    with 1 neg show ?thesis by (simp add: a b)
  next
    case 2
    with na0 pb0 show ?thesis by (simp add: a b)
  next
    case 3
    with assms(3) have "0 \<le> w" by simp
    with 3 pos show ?thesis by (simp add: a b)
  qed
qed

lemma toFixed9_gwei_Some: "toFixed9_gwei x = Inr a \<Longrightarrow> \<exists>v. x = Some v"
  by (cases x) (simp_all add: toFixed9_gwei_def)

lemma Math_min_le_right: "Math_min x y = Some m \<Longrightarrow> y = Some c \<Longrightarrow> m \<le> c"
  by (auto simp: Math_min_def split: option.splits)

text \<open>
  The oracle tier and the node tier clamp the priority fee: every quote they return
  has \<open>maxPriorityFeePerGas \<le> maxFeePerGas\<close>.
\<close>

lemma fetchTxOptionsFromEtherscan_invariant:
  assumes "fetchTxOptionsFromEtherscan C response = Inr opts"
  shows "maxPriorityFeePerGas opts \<le> maxFeePerGas opts \<and> gasPrice opts = maxFeePerGas opts"
proof -
  from assms obtain capped prio where
    fee: "toFixed9_gwei capped = Inr (maxFeePerGas opts)"
    and tip: "toFixed9_gwei (Math_min prio capped) = Inr (maxPriorityFeePerGas opts)"
    and gp: "gasPrice opts = maxFeePerGas opts"
    by (auto simp: fetchTxOptionsFromEtherscan_def Let_def split: sum.splits if_splits)
  from toFixed9_gwei_Some [OF fee] obtain c where c: "capped = Some c" by blast
  from toFixed9_gwei_Some [OF tip] obtain m where m: "Math_min prio capped = Some m" by blast
  from Math_min_le_right [OF m c] have "m \<le> c" .
  with fee tip c m have "maxPriorityFeePerGas opts \<le> maxFeePerGas opts"
    by (auto intro: toFixed9_gwei_mono)
  with gp show ?thesis by simp
qed

lemma fetchTxOptionsFromRPC_invariant:
  assumes "fetchTxOptionsFromRPC C fee = Inr opts"
  shows "maxPriorityFeePerGas opts \<le> maxFeePerGas opts \<and> gasPrice opts = maxFeePerGas opts"
  using assms
  by (auto simp: fetchTxOptionsFromRPC_def Let_def split: sum.splits option.splits if_splits)

lemma parseUnits_gwei_default: "parseUnits_gwei 30 = Inr 30000000000" "parseUnits_gwei 2 = Inr 2000000000"
  "parseUnits_gwei 1 = Inr 1000000000" "parseUnits_gwei 200 = Inr 200000000000"
  by (simp_all add: parseUnits_gwei_def)

lemma parseUnits_gwei_ten_decimals: "parseUnits_gwei (301234567891 / 10000000000) = Inl NumericFault"
  by code_simp

lemma etherscan_example:
  "fetchTxOptionsFromEtherscan default_constants oracle_example
   = Inr \<lparr> gasPrice = 22000000000, maxFeePerGas = 22000000000,
           maxPriorityFeePerGas = 2000000000 \<rparr>"
  by code_simp

lemma rpc_example:
  "fetchTxOptionsFromRPC default_constants
     (Inr \<lparr> fee_maxFeePerGas = Some 300000000000, fee_maxPriorityFeePerGas = None \<rparr>)
   = Inr \<lparr> gasPrice = 200000000000, maxFeePerGas = 200000000000,
           maxPriorityFeePerGas = 2000000000 \<rparr>"
  by (simp add: fetchTxOptionsFromRPC_def default_constants_def parseUnits_gwei_default)

text \<open>
  The order of the tiers: the node is asked only when the oracle tier threw, the
  static default is used only when both threw; and \<open>fetchTxOptions\<close> returns a quote
  whenever the two static constants convert to wei, as the defaults \<open>30\<close> and \<open>2\<close> do.
\<close>

lemma fetchTxOptions_tiers:
  "(fetchTxOptionsFromEtherscan C response = Inr opts \<longrightarrow>
      fetchTxOptions C response fee = (Inr opts, [Etherscan]))
   \<and> (fetchTxOptionsFromEtherscan C response = Inl e1 \<and> fetchTxOptionsFromRPC C fee = Inr opts \<longrightarrow>
      fetchTxOptions C response fee = (Inr opts, [Etherscan, RPC]))
   \<and> (fetchTxOptionsFromEtherscan C response = Inl e1 \<and> fetchTxOptionsFromRPC C fee = Inl e2 \<longrightarrow>
      fetchTxOptions C response fee = (staticTxOptions C, [Etherscan, RPC, StaticDefault]))"
  by (simp add: fetchTxOptions_def)

lemma staticTxOptions_ok:
  "parseUnits_gwei (DEFAULT_GAS_PRICE_GWEI C) = Inr d \<Longrightarrow>
   parseUnits_gwei (PRIORITY_FEE_GWEI C) = Inr p \<Longrightarrow>
   staticTxOptions C = Inr \<lparr> gasPrice = d, maxFeePerGas = d, maxPriorityFeePerGas = p \<rparr>"
  by (simp add: staticTxOptions_def)

lemma fetchTxOptions_returns_when_static_ok:
  assumes "parseUnits_gwei (DEFAULT_GAS_PRICE_GWEI C) = Inr d"
    and "parseUnits_gwei (PRIORITY_FEE_GWEI C) = Inr p"
  shows "\<exists>opts tiers. fetchTxOptions C response fee = (Inr opts, tiers)"
  using staticTxOptions_ok [OF assms]
  by (auto simp: fetchTxOptions_def split: sum.splits)

lemma fetchTxOptions_default_constants:
  "\<exists>opts tiers. fetchTxOptions default_constants response fee = (Inr opts, tiers)"
  by (rule fetchTxOptions_returns_when_static_ok [where d = 30000000000 and p = 2000000000])
     (simp_all add: default_constants_def parseUnits_gwei_default)

text \<open>
  Claim C1 (the code does not meet it): \<open>fetchTxOptions\<close> is to return a quote and
  never raise. The conversions of the static tier stand outside both \<open>try\<close> blocks:
  with \<open>DEFAULT_GAS_PRICE_GWEI = 30.1234567891\<close> (ten decimals, not a whole number
  of wei), the oracle unreachable and the node failing, all three tiers are tried and
  the \<open>NUMERIC_FAULT\<close> of \<open>parseUnits\<close> leaves \<open>fetchTxOptions\<close>.
\<close>

theorem fetchTxOptions_static_tier_throws:
  "fetchTxOptions (default_constants\<lparr> DEFAULT_GAS_PRICE_GWEI := 301234567891 / 10000000000 \<rparr>)
     (Inl NetworkError) (Inl RpcError)
   = (Inl NumericFault, [Etherscan, RPC, StaticDefault])"
  by (simp add: fetchTxOptions_def fetchTxOptionsFromEtherscan_def fetchTxOptionsFromRPC_def
      staticTxOptions_def default_constants_def parseUnits_gwei_ten_decimals)

text \<open>
  Claim C2 (the code does not meet it): every returned quote is to have
  \<open>maxPriorityFeePerGas \<le> maxFeePerGas\<close>. The static tier does not clamp as the other
  two do: with \<open>DEFAULT_GAS_PRICE_GWEI = 1\<close> and the default priority fee of \<open>2\<close> gwei,
  the oracle unreachable and the node failing, the quote has a max fee of \<open>1\<close> gwei
  and a priority fee of \<open>2\<close> gwei.
\<close>

theorem fetchTxOptions_static_tier_unclamped:
  "fetchTxOptions (default_constants\<lparr> DEFAULT_GAS_PRICE_GWEI := 1 \<rparr>)
     (Inl NetworkError) (Inl RpcError)
   = (Inr \<lparr> gasPrice = 1000000000, maxFeePerGas = 1000000000,
            maxPriorityFeePerGas = 2000000000 \<rparr>,
      [Etherscan, RPC, StaticDefault])
   \<and> (\<exists>opts tiers.
         fetchTxOptions (default_constants\<lparr> DEFAULT_GAS_PRICE_GWEI := 1 \<rparr>)
           (Inl NetworkError) (Inl RpcError) = (Inr opts, tiers)
         \<and> maxFeePerGas opts < maxPriorityFeePerGas opts)"
  by (simp add: fetchTxOptions_def fetchTxOptionsFromEtherscan_def fetchTxOptionsFromRPC_def
      staticTxOptions_def default_constants_def parseUnits_gwei_default)

subsection \<open>Slippage engine\<close>

lemma bigint_div_pos: "0 < b \<Longrightarrow> bigint_div a b = Inr (a div b)"
  by (simp add: bigint_div_def)

lemma calculateAmountOut_eq:
  "0 < amountIn \<Longrightarrow>
   calculateAmountOut amountIn reserveIn reserveOut =
     Inr ((amountIn * 997 * reserveOut) div (reserveIn * 1000 + amountIn * 997))"
  by (simp add: calculateAmountOut_def Let_def bigint_div_def)

lemma calculateAmountOut_total:
  "\<exists>out. calculateAmountOut amountIn reserveIn reserveOut = Inr out"
  by (cases "amountIn = 0") (simp_all add: calculateAmountOut_def Let_def bigint_div_def)

lemma amountOut_cross:
  fixes a1 a2 r R :: nat
  assumes "a1 \<le> a2"
  shows "(a1 * 997 * R) * (r * 1000 + a2 * 997) \<le> (a2 * 997 * R) * (r * 1000 + a1 * 997)"
proof -
  have "a1 * (r * 1000) \<le> a2 * (r * 1000)"
    using assms by (rule mult_le_mono1)
  then have "997 * R * (a1 * (r * 1000) + a1 * a2 * 997) \<le> 997 * R * (a2 * (r * 1000) + a1 * a2 * 997)"
    by (intro mult_le_mono2) simp
  then show ?thesis
    by (simp add: algebra_simps)
qed

lemma div_mono_cross:
  fixes n1 n2 d1 d2 :: nat
  assumes d1: "0 < d1" and d2: "0 < d2" and cross: "n1 * d2 \<le> n2 * d1"
  shows "n1 div d1 \<le> n2 div d2"
proof -
  have "(n1 div d1) * d1 \<le> n1" by simp
  then have "(n1 div d1) * d1 * d2 \<le> n1 * d2" by (rule mult_le_mono1)
  also note cross
  finally have "((n1 div d1) * d2) * d1 \<le> n2 * d1" by (simp add: ac_simps)
  then have "(n1 div d1) * d2 \<le> n2" using d1 by simp
  with d2 show ?thesis by (simp add: less_eq_div_iff_mult_less_eq)
qed

lemma calculateAmountOut_mono_pos:
  fixes a1 a2 r R :: nat
  assumes "0 < a1" "a1 \<le> a2"
  shows "(a1 * 997 * R) div (r * 1000 + a1 * 997) \<le> (a2 * 997 * R) div (r * 1000 + a2 * 997)"
  using assms by (intro div_mono_cross amountOut_cross) simp_all

text \<open>
  Claim C9: for fixed positive reserves \<open>calculateAmountOut\<close> is monotonically
  increasing in \<open>amountIn\<close> (\<open>a1 \<le> a2\<close> gives an output that is not smaller), it
  returns a value at both amounts, and \<open>calculateAmountOut(0, reserveIn, reserveOut)\<close>
  is \<open>0\<close>.
\<close>

theorem calculateAmountOut_monotone:
  "0 < reserveIn \<Longrightarrow> 0 < reserveOut \<Longrightarrow> a1 \<le> a2 \<Longrightarrow>
   (\<exists>out1 out2. calculateAmountOut a1 reserveIn reserveOut = Inr out1
       \<and> calculateAmountOut a2 reserveIn reserveOut = Inr out2 \<and> out1 \<le> out2)
   \<and> calculateAmountOut 0 reserveIn reserveOut = Inr 0"
proof (cases "a1 = 0")
  case True
  then show ?thesis
    using calculateAmountOut_total [of a2 reserveIn reserveOut]
    by (auto simp: calculateAmountOut_def)
next
  case False
  assume "a1 \<le> a2"
  with False have "0 < a1" "0 < a2" "a1 \<le> a2" by simp_all
  then show ?thesis
    using calculateAmountOut_mono_pos [of a1 a2 reserveOut reserveIn]
    by (simp add: calculateAmountOut_eq) (simp add: calculateAmountOut_def)
qed

theorem calculateAmountOut_monotone_witness:
  "(\<exists>out1 out2. calculateAmountOut 10 1000 1000 = Inr out1
       \<and> calculateAmountOut 20 1000 1000 = Inr out2 \<and> out1 \<le> out2)
   \<and> calculateAmountOut 0 1000 1000 = Inr 0"
  using calculateAmountOut_monotone [of 1000 1000 10 20] by simp

text \<open>
  The increase is not strict: the BigInt division truncates, so two different amounts
  can both project an output of \<open>0\<close>.
\<close>

lemma calculateAmountOut_not_strict:
  "calculateAmountOut 1 1000 1 = Inr 0 \<and> calculateAmountOut 2 1000 1 = Inr 0"
  by (simp add: calculateAmountOut_eq)

lemma calculateAmountOut_lt:
  fixes amountIn reserveIn reserveOut :: nat
  assumes "0 < amountIn" "0 < reserveIn" "0 < reserveOut"
  shows "(amountIn * 997 * reserveOut) div (reserveIn * 1000 + amountIn * 997) < reserveOut"
proof -
  have "amountIn * 997 * reserveOut < reserveOut * (reserveIn * 1000 + amountIn * 997)"
    using assms by (simp add: algebra_simps)
  then show ?thesis
    using assms by (simp add: div_less_iff_less_mult)
qed

text \<open>
  Claim C10, as amended: for every positive \<open>amountIn\<close> and \<open>reserveIn\<close> the projected
  output is below the output reserve when that reserve is positive, and is \<open>0\<close> when
  the output reserve is \<open>0\<close>.
\<close>

theorem calculateAmountOut_below_reserve:
  "0 < amountIn \<Longrightarrow> 0 < reserveIn \<Longrightarrow>
   \<exists>out. calculateAmountOut amountIn reserveIn reserveOut = Inr out
     \<and> (if reserveOut = 0 then out = 0 else out < reserveOut)"
  using calculateAmountOut_lt [of amountIn reserveIn reserveOut]
  by (simp add: calculateAmountOut_eq)

theorem calculateAmountOut_below_reserve_witness:
  "\<exists>out. calculateAmountOut 10 1000 1000 = Inr out \<and> out < 1000"
  using calculateAmountOut_below_reserve [of 10 1000 1000] by simp

text \<open>
  As stated the claim fails: with an empty output reserve the output, \<open>0\<close>, is not
  below the reserve.
\<close>

theorem calculateAmountOut_empty_reserve:
  "\<not> (\<forall>amountIn reserveIn reserveOut.
        0 < amountIn \<and> 0 < reserveIn \<longrightarrow>
        (\<exists>out. calculateAmountOut amountIn reserveIn reserveOut = Inr out \<and> out < reserveOut))"
proof
  assume "\<forall>amountIn reserveIn reserveOut.
        0 < amountIn \<and> 0 < reserveIn \<longrightarrow>
        (\<exists>out. calculateAmountOut amountIn reserveIn reserveOut = Inr out \<and> out < reserveOut)"
  then have "0 < (1::nat) \<and> 0 < (1::nat) \<longrightarrow>
      (\<exists>out. calculateAmountOut 1 1 0 = Inr out \<and> out < 0)"
    by blast
  then show False by simp
qed

lemma calculatePriceImpact_zero:
  "amountIn = 0 \<or> reserveIn = 0 \<or> reserveOut = 0 \<Longrightarrow>
   calculatePriceImpact amountIn reserveIn reserveOut = Inr (Some 0)"
  by (simp add: calculatePriceImpact_def)

lemma calculatePriceImpact_pos:
  assumes "0 < amountIn" "0 < reserveIn" "0 < reserveOut"
  shows "calculatePriceImpact amountIn reserveIn reserveOut =
     Inr (Some (\<bar>((of_int (int reserveOut
                     - int ((amountIn * 997 * reserveOut) div (reserveIn * 1000 + amountIn * 997)))
                   / of_int (int (reserveIn + amountIn)))
                 - (of_int (int reserveOut) / of_int (int reserveIn)))
                / (of_int (int reserveOut) / of_int (int reserveIn))\<bar> * 100))"
  using assms
  by (simp add: calculatePriceImpact_def Let_def bigint_div_def num_div_def num_sub_def
      num_mul_def Math_abs_def Number_of_def)

lemma calculatePriceImpact_total:
  "\<exists>i. calculatePriceImpact amountIn reserveIn reserveOut = Inr (Some i)"
proof (cases "amountIn = 0 \<or> reserveIn = 0 \<or> reserveOut = 0")
  case True
  then show ?thesis by (simp add: calculatePriceImpact_zero)
next
  case False
  then show ?thesis by (simp add: calculatePriceImpact_pos)
qed

text \<open>
  Every band of the tolerance lies between the configured bounds when the minimum is at
  most \<open>100\<close> and the maximum at least \<open>500\<close>, whatever the impact.
\<close>

lemma band_bounds:
  assumes lo: "MIN_SLIPPAGE_BPS C \<le> 100" and hi: "500 \<le> MAX_SLIPPAGE_BPS C"
  shows "\<exists>t. (if num_less (Some i) (Some (1 / 2)) then Some (of_int (MIN_SLIPPAGE_BPS C))
                  else if num_less (Some i) (Some 2) then Some 100
                  else if num_less (Some i) (Some 5) then Some 200
                  else if num_less (Some i) (Some 10) then Some 500
                  else Math_min (Some (of_int (MAX_SLIPPAGE_BPS C)))
                                (Math_ceil (num_mul (Some i) (Some 100)))) = Some t
             \<and> of_int (MIN_SLIPPAGE_BPS C) \<le> t \<and> t \<le> of_int (MAX_SLIPPAGE_BPS C)"
proof -
  have "(of_int (MIN_SLIPPAGE_BPS C) :: rat) \<le> of_int 100"
    using lo by (simp only: of_int_le_iff)
  then have lo': "(of_int (MIN_SLIPPAGE_BPS C) :: rat) \<le> 100" by simp
  have "(of_int 500 :: rat) \<le> of_int (MAX_SLIPPAGE_BPS C)"
    using hi by (simp only: of_int_le_iff)
  then have hi': "(500 :: rat) \<le> of_int (MAX_SLIPPAGE_BPS C)" by simp
  have big: "of_int (MIN_SLIPPAGE_BPS C) \<le> (of_int \<lceil>i * 100\<rceil> :: rat)" if "10 \<le> i"
  proof -
    have "(of_int 1000 :: rat) - 1 < i * 100" using that by simp
    then have "1000 \<le> \<lceil>i * 100\<rceil>" by (simp only: le_ceiling_iff)
    with lo have "MIN_SLIPPAGE_BPS C \<le> \<lceil>i * 100\<rceil>" by linarith
    then show ?thesis by (simp only: of_int_le_iff)
  qed
  show ?thesis
    using lo' hi' big
    by (auto simp: num_less_def Math_min_def Math_ceil_def num_mul_def min_def not_less)
qed

lemma calculateDynamicSlippage_enabled:
  "ENABLE_DYNAMIC_SLIPPAGE C \<Longrightarrow>
   calculatePriceImpact amountIn reserveIn reserveOut = Inr priceImpact \<Longrightarrow>
   calculateDynamicSlippage C reserveIn reserveOut amountIn =
     Inr (if num_less priceImpact (Some (1 / 2)) then Some (of_int (MIN_SLIPPAGE_BPS C))
          else if num_less priceImpact (Some 2) then Some 100
          else if num_less priceImpact (Some 5) then Some 200
          else if num_less priceImpact (Some 10) then Some 500
          else Math_min (Some (of_int (MAX_SLIPPAGE_BPS C)))
                        (Math_ceil (num_mul priceImpact (Some 100))))"
  by (simp add: calculateDynamicSlippage_def)

text \<open>
  With dynamic slippage enabled and a configuration whose \<open>MIN_SLIPPAGE_BPS\<close> is at
  most \<open>100\<close> and whose \<open>MAX_SLIPPAGE_BPS\<close> is at least \<open>500\<close>, as the defaults \<open>50\<close>
  and \<open>5000\<close> are, the tolerance lies between the two for every amount and reserves;
  with dynamic slippage disabled it is \<open>SLIPPAGE_BPS\<close>.
\<close>

lemma calculateDynamicSlippage_bounds:
  "(ENABLE_DYNAMIC_SLIPPAGE C \<and> MIN_SLIPPAGE_BPS C \<le> 100 \<and> 500 \<le> MAX_SLIPPAGE_BPS C \<longrightarrow>
      (\<exists>t. calculateDynamicSlippage C reserveIn reserveOut amountIn = Inr (Some t)
           \<and> of_int (MIN_SLIPPAGE_BPS C) \<le> t \<and> t \<le> of_int (MAX_SLIPPAGE_BPS C)))
   \<and> (\<not> ENABLE_DYNAMIC_SLIPPAGE C \<longrightarrow>
        calculateDynamicSlippage C reserveIn reserveOut amountIn
          = Inr (Some (of_int (SLIPPAGE_BPS C))))"
proof (intro conjI impI)
  assume a: "ENABLE_DYNAMIC_SLIPPAGE C \<and> MIN_SLIPPAGE_BPS C \<le> 100 \<and> 500 \<le> MAX_SLIPPAGE_BPS C"
  obtain i where i: "calculatePriceImpact amountIn reserveIn reserveOut = Inr (Some i)"
    using calculatePriceImpact_total by blast
  from a show "\<exists>t. calculateDynamicSlippage C reserveIn reserveOut amountIn = Inr (Some t)
           \<and> of_int (MIN_SLIPPAGE_BPS C) \<le> t \<and> t \<le> of_int (MAX_SLIPPAGE_BPS C)"
    using band_bounds [of C i] by (simp add: calculateDynamicSlippage_enabled [OF _ i])
next
  assume "\<not> ENABLE_DYNAMIC_SLIPPAGE C"
  then show "calculateDynamicSlippage C reserveIn reserveOut amountIn
          = Inr (Some (of_int (SLIPPAGE_BPS C)))"
    by (simp add: calculateDynamicSlippage_def)
qed

lemma calculateDynamicSlippage_bounds_default:
  "(\<exists>t. calculateDynamicSlippage dynamic_constants 1000 1000 10 = Inr (Some t)
       \<and> 50 \<le> t \<and> t \<le> 5000)
   \<and> calculateDynamicSlippage default_constants 1000 1000 10 = Inr (Some 2000)"
  using calculateDynamicSlippage_bounds [of dynamic_constants 1000 1000 10]
    calculateDynamicSlippage_bounds [of default_constants 1000 1000 10]
  by (simp add: dynamic_constants_def default_constants_def)

lemma impact_10_1000_1000: "calculatePriceImpact 10 1000 1000 = Inr (Some (190 / 101))"
  by (simp add: calculatePriceImpact_pos)

lemma impact_30_1000_1000: "calculatePriceImpact 30 1000 1000 = Inr (Some (590 / 103))"
  by (simp add: calculatePriceImpact_pos)

text \<open>
  Claim C4 (the code does not meet it): with dynamic slippage enabled the tolerance is
  to lie between \<open>MIN_SLIPPAGE_BPS\<close> and \<open>MAX_SLIPPAGE_BPS\<close> for every configuration.
  The first band returns the configured minimum and the last caps at the configured
  maximum, but the three bands between return \<open>100\<close>, \<open>200\<close> and \<open>500\<close> unclamped:
  with \<open>MAX_SLIPPAGE_BPS = 300\<close>, a trade of \<open>30\<close> against reserves of \<open>1000\<close> and
  \<open>1000\<close> (an impact of about \<open>5.73\<close> percent) gets \<open>500\<close>; with
  \<open>MIN_SLIPPAGE_BPS = 150\<close>, a trade of \<open>10\<close> against the same reserves (about \<open>1.88\<close>
  percent) gets \<open>100\<close>.
\<close>

theorem calculateDynamicSlippage_bands_unclamped:
  "calculateDynamicSlippage (dynamic_constants\<lparr> MAX_SLIPPAGE_BPS := 300 \<rparr>) 1000 1000 30
     = Inr (Some 500)
   \<and> calculateDynamicSlippage (dynamic_constants\<lparr> MIN_SLIPPAGE_BPS := 150 \<rparr>) 1000 1000 10
     = Inr (Some 100)"
  by (simp add: calculateDynamicSlippage_def impact_10_1000_1000 impact_30_1000_1000
      num_less_def dynamic_constants_def default_constants_def)

lemma calculateDynamicSlippage_total:
  "\<exists>t. calculateDynamicSlippage C reserveIn reserveOut amountIn = Inr (Some t)"
proof -
  obtain i where "calculatePriceImpact amountIn reserveIn reserveOut = Inr (Some i)"
    using calculatePriceImpact_total by blast
  then show ?thesis
    by (simp add: calculateDynamicSlippage_def Math_min_def Math_ceil_def num_mul_def)
qed

text \<open>
  Claim C8, as amended: \<open>calculatePriceImpact\<close>, \<open>calculateAmountOut\<close> and
  \<open>calculateDynamicSlippage\<close> return a value on every input (no division fails, and
  neither the impact nor the tolerance is \<open>NaN\<close>);
  \<open>calculatePriceImpact\<close> is \<open>0\<close> whenever the amount or a reserve is zero;
  \<open>calculateAmountOut\<close> is \<open>0\<close> whenever the amount or the output reserve is zero;
  with a zero input reserve and a positive amount it returns the whole output reserve.
\<close>

theorem slippage_engine_total:
  "(\<exists>i. calculatePriceImpact amountIn reserveIn reserveOut = Inr (Some i))
   \<and> (\<exists>out. calculateAmountOut amountIn reserveIn reserveOut = Inr out)
   \<and> (\<exists>t. calculateDynamicSlippage C reserveIn reserveOut amountIn = Inr (Some t))
   \<and> (amountIn = 0 \<or> reserveIn = 0 \<or> reserveOut = 0 \<longrightarrow>
        calculatePriceImpact amountIn reserveIn reserveOut = Inr (Some 0))
   \<and> (amountIn = 0 \<or> reserveOut = 0 \<longrightarrow>
        calculateAmountOut amountIn reserveIn reserveOut = Inr 0)
   \<and> (0 < amountIn \<and> reserveIn = 0 \<longrightarrow>
        calculateAmountOut amountIn reserveIn reserveOut = Inr reserveOut)"
proof (intro conjI impI)
  show "\<exists>i. calculatePriceImpact amountIn reserveIn reserveOut = Inr (Some i)"
    by (rule calculatePriceImpact_total)
  show "\<exists>out. calculateAmountOut amountIn reserveIn reserveOut = Inr out"
    by (rule calculateAmountOut_total)
  show "\<exists>t. calculateDynamicSlippage C reserveIn reserveOut amountIn = Inr (Some t)"
    by (rule calculateDynamicSlippage_total)
  show "calculatePriceImpact amountIn reserveIn reserveOut = Inr (Some 0)"
    if "amountIn = 0 \<or> reserveIn = 0 \<or> reserveOut = 0"
    using that by (rule calculatePriceImpact_zero)
  show "calculateAmountOut amountIn reserveIn reserveOut = Inr 0"
    if "amountIn = 0 \<or> reserveOut = 0"
    using that by (cases "amountIn = 0") (simp_all add: calculateAmountOut_def Let_def bigint_div_def)
  show "calculateAmountOut amountIn reserveIn reserveOut = Inr reserveOut"
    if "0 < amountIn \<and> reserveIn = 0"
    using that by (simp add: calculateAmountOut_eq)
qed

theorem slippage_engine_total_witness:
  "calculatePriceImpact 1 0 5 = Inr (Some 0) \<and> calculateAmountOut 1 0 5 = Inr 5
   \<and> calculateAmountOut 7 1000 0 = Inr 0"
  using slippage_engine_total [of 1 0 5] slippage_engine_total [of 7 1000 0]
  by simp

text \<open>
  As stated the claim fails: \<open>calculateAmountOut\<close> guards only \<open>amountIn\<close>, and a
  zero input reserve with a nonzero output reserve does not give \<open>0\<close>.
\<close>

theorem calculateAmountOut_zero_reserveIn:
  "\<not> (\<forall>amountIn reserveIn reserveOut.
        reserveIn = 0 \<or> reserveOut = 0 \<longrightarrow>
        calculateAmountOut amountIn reserveIn reserveOut = Inr 0)"
proof
  assume "\<forall>amountIn reserveIn reserveOut.
        reserveIn = 0 \<or> reserveOut = 0 \<longrightarrow>
        calculateAmountOut amountIn reserveIn reserveOut = Inr 0"
  then have "calculateAmountOut 1 0 5 = Inr 0" by blast
  then show False by (simp add: calculateAmountOut_eq)
qed

subsection \<open>Double-precision arithmetic\<close>

text \<open>
  \<open>ilog2\<close> is the binary exponent: for a positive \<open>x\<close> it is the one \<open>k\<close> with
  \<open>2^k \<le> x < 2^(k+1)\<close>.
\<close>

lemma ilog2_range:
  assumes "0 < x"
  shows "2 powi (ilog2 x) \<le> x \<and> x < 2 powi (ilog2 x + 1)"
proof -
  obtain p q where pq: "quotient_of x = (p, q)" by (cases "quotient_of x")
  then have q: "0 < q" and x: "x = of_int p / of_int q"
    by (simp_all add: quotient_of_denom_pos quotient_of_div)
  from assms q x have p: "0 < p" by (simp add: zero_less_divide_iff)
  define bp bq where "bp = floorlog 2 (nat p)" and "bq = floorlog 2 (nat q)"
  define k where "k = int bp - int bq"
  have P: "2 ^ (bp - 1) \<le> nat p \<and> nat p < 2 ^ bp"
    unfolding bp_def using p by (intro floorlog_bounds) simp_all
  have Q: "2 ^ (bq - 1) \<le> nat q \<and> nat q < 2 ^ bq"
    unfolding bq_def using q by (intro floorlog_bounds) simp_all
  have bp1: "1 \<le> bp" unfolding bp_def using p by (simp add: floorlog_def)
  have bq1: "1 \<le> bq" unfolding bq_def using q by (simp add: floorlog_def)
  have Pl: "(2::rat) ^ (bp - 1) \<le> of_int p"
  proof -
    from P have "int (2 ^ (bp - 1)) \<le> int (nat p)" by (simp only: of_nat_le_iff)
    with p have "(2::int) ^ (bp - 1) \<le> p" by simp
    then have "(of_int ((2::int) ^ (bp - 1)) :: rat) \<le> of_int p" by (simp only: of_int_le_iff)
    then show ?thesis by simp
  qed
  have Pu: "of_int p < (2::rat) ^ bp"
  proof -
    from P have "int (nat p) < int (2 ^ bp)" by (simp only: of_nat_less_iff)
    with p have "p < (2::int) ^ bp" by simp
    then have "(of_int p :: rat) < of_int ((2::int) ^ bp)" by (simp only: of_int_less_iff)
    then show ?thesis by simp
  qed
  have Ql: "(2::rat) ^ (bq - 1) \<le> of_int q"
  proof -
    from Q have "int (2 ^ (bq - 1)) \<le> int (nat q)" by (simp only: of_nat_le_iff)
    with q have "(2::int) ^ (bq - 1) \<le> q" by simp
    then have "(of_int ((2::int) ^ (bq - 1)) :: rat) \<le> of_int q" by (simp only: of_int_le_iff)
    then show ?thesis by simp
  qed
  have Qu: "of_int q < (2::rat) ^ bq"
  proof -
    from Q have "int (nat q) < int (2 ^ bq)" by (simp only: of_nat_less_iff)
    with q have "q < (2::int) ^ bq" by simp
    then have "(of_int q :: rat) < of_int ((2::int) ^ bq)" by (simp only: of_int_less_iff)
    then show ?thesis by simp
  qed
  have qpos: "(0::rat) < of_int q" using q by simp
  have ppos: "(0::rat) < of_int p" using p by simp
  have up: "x < 2 powi (k + 1)"
  proof -
    have "x < 2 ^ bp / 2 ^ (bq - 1)"
      unfolding x using Pu Ql qpos ppos
      by (intro frac_less) simp_all
    also have "\<dots> = 2 powi (int bp - int (bq - 1))"
      by (simp add: power_int_diff)
    also have "int bp - int (bq - 1) = k + 1"
      using bq1 by (simp add: k_def)
    finally show ?thesis .
  qed
  have low: "2 powi (k - 1) \<le> x"
  proof -
    have "k - 1 = int (bp - 1) - int bq"
      using bp1 by (simp add: k_def of_nat_diff)
    then have "2 powi (k - 1) = (2::rat) powi (int (bp - 1) - int bq)"
      by (simp only:)
    also have "\<dots> = 2 ^ (bp - 1) / 2 ^ bq"
      by (simp add: power_int_diff)
    also have "\<dots> \<le> x"
      unfolding x using Pl Qu qpos ppos
      by (intro frac_le) simp_all
    finally show ?thesis .
  qed
  have il: "ilog2 x = (if 2 powi k \<le> x then k else k - 1)"
    by (simp add: ilog2_def pq Let_def k_def bp_def bq_def)
  show ?thesis
  proof (cases "2 powi k \<le> x")
    case True
    with up il show ?thesis by simp
  next
    case False
    with low il show ?thesis by simp
  qed
qed

lemma pow2_less_exp:
  assumes "(2::rat) powi m < 2 powi n"
  shows "m < n"
proof (rule ccontr)
  assume "\<not> m < n"
  then have "n \<le> m" by simp
  then have "(2::rat) powi n \<le> 2 powi m" by (intro power_int_increasing) simp_all
  with assms show False by simp
qed

lemma ilog2_eqI:
  assumes "2 powi k \<le> x" and "x < 2 powi (k + 1)"
  shows "ilog2 x = k"
proof -
  have "(0::rat) < 2 powi k" by simp
  with assms(1) have pos: "0 < x" by linarith
  note r = ilog2_range [OF pos]
  from r assms have "(2::rat) powi k < 2 powi (ilog2 x + 1)" by linarith
  then have "k < ilog2 x + 1" by (rule pow2_less_exp)
  moreover from r assms have "(2::rat) powi (ilog2 x) < 2 powi (k + 1)" by linarith
  then have "ilog2 x < k + 1" by (rule pow2_less_exp)
  ultimately show ?thesis by linarith
qed

text \<open>
  Rounding moves a value by at most half a unit in the last place: in the normal range
  the relative error of \<open>fl\<close> is at most \<open>2^-53\<close>. \<open>fl_eqI\<close> computes \<open>fl\<close> from a
  given exponent.
\<close>

lemma round_even_error: "\<bar>of_int (round_even r) - r\<bar> \<le> 1 / 2"
proof -
  have "of_int \<lfloor>r\<rfloor> \<le> r" "r < of_int \<lfloor>r\<rfloor> + 1"
    by linarith+
  then show ?thesis
    by (auto simp: round_even_def Let_def abs_le_iff)
qed

lemma round_even_int: "round_even (of_int m) = m"
  by (simp add: round_even_def)

lemma fl_scaled:
  assumes "x \<noteq> 0"
  shows "fl x = of_int (round_even (x / 2 powi (max (ilog2 \<bar>x\<bar> - 52) (- 1074))))
                * 2 powi (max (ilog2 \<bar>x\<bar> - 52) (- 1074))"
  using assms by (simp add: fl_def Let_def)

lemma fl_eqI:
  assumes "2 powi k \<le> \<bar>x\<bar>" and "\<bar>x\<bar> < 2 powi (k + 1)" and "- 1022 \<le> k"
  shows "fl x = of_int (round_even (x / 2 powi (k - 52))) * 2 powi (k - 52)"
proof -
  have "(0::rat) < 2 powi k" by simp
  with assms(1) have "0 < \<bar>x\<bar>" by linarith
  then have nz: "x \<noteq> 0" by auto
  have "ilog2 \<bar>x\<bar> = k" using assms(1,2) by (rule ilog2_eqI)
  with assms(3) have "max (ilog2 \<bar>x\<bar> - 52) (- 1074) = k - 52" by simp
  with fl_scaled [OF nz] show ?thesis by simp
qed

lemma fl_error:
  assumes "2 powi (- 1022) \<le> \<bar>x\<bar>"
  shows "\<bar>fl x - x\<bar> \<le> \<bar>x\<bar> / 2 ^ 53"
proof -
  have "(0::rat) < 2 powi (- 1022)" by (rule zero_less_power_int) simp
  with assms have pos: "0 < \<bar>x\<bar>" by linarith
  then have nz: "x \<noteq> 0" by auto
  define e where "e = max (ilog2 \<bar>x\<bar> - 52) (- 1074)"
  define P where "P = (2::rat) powi e"
  have Ppos: "0 < P" unfolding P_def by simp
  have small: "P \<le> \<bar>x\<bar> / 2 ^ 52"
  proof (cases "- 1074 \<le> ilog2 \<bar>x\<bar> - 52")
    case True
    then have "e = ilog2 \<bar>x\<bar> - 52" by (simp add: e_def)
    then have "P = 2 powi (ilog2 \<bar>x\<bar>) / 2 ^ 52"
      by (simp add: P_def power_int_diff)
    also have "\<dots> \<le> \<bar>x\<bar> / 2 ^ 52"
      using ilog2_range [OF pos] by (simp add: divide_right_mono)
    finally show ?thesis .
  next
    case False
    then have "e = - 1022 - 52" by (simp add: e_def)
    then have "P = 2 powi (- 1022) / 2 ^ 52"
      unfolding P_def by (simp only: power_int_diff) simp
    also have "\<dots> \<le> \<bar>x\<bar> / 2 ^ 52"
      using assms by (simp add: divide_right_mono)
    finally show ?thesis .
  qed
  have fl: "fl x = of_int (round_even (x / P)) * P"
    using fl_scaled [OF nz] by (simp add: e_def P_def)
  have "fl x - x = (of_int (round_even (x / P)) - x / P) * P"
    using Ppos by (simp add: fl field_simps)
  then have "\<bar>fl x - x\<bar> = \<bar>of_int (round_even (x / P)) - x / P\<bar> * P"
    using Ppos by (simp add: abs_mult)
  also have "\<dots> \<le> (1 / 2) * P"
    using round_even_error [of "x / P"] Ppos by (intro mult_right_mono) simp_all
  also have "\<dots> \<le> (1 / 2) * (\<bar>x\<bar> / 2 ^ 52)"
    using small by simp
  also have "\<dots> = \<bar>x\<bar> / 2 ^ 53" by simp
  finally show ?thesis .
qed

lemma to_double_eqI: "\<bar>fl x\<bar> < 2 ^ 1024 \<Longrightarrow> to_double x = Some (fl x)"
  by (simp add: to_double_def)

lemma rel_of_abs:
  fixes x y u :: rat
  assumes "\<bar>y - x\<bar> \<le> x * u"
  shows "x * (1 - u) \<le> y \<and> y \<le> x * (1 + u)"
proof -
  define d where "d = x * u"
  have eq: "x * (1 - u) = x - d" "x * (1 + u) = x + d"
    by (simp_all add: d_def algebra_simps)
  from assms have "\<bar>y - x\<bar> \<le> d" by (simp add: d_def)
  then have "x - d \<le> y \<and> y \<le> x + d" by linarith
  then show ?thesis by (simp only: eq)
qed

lemma to_double_rel:
  assumes "1 / 2 ^ 300 \<le> x" and "x \<le> 2 ^ 300"
  shows "\<exists>y. to_double x = Some y \<and> x * (1 - 1 / 2 ^ 53) \<le> y \<and> y \<le> x * (1 + 1 / 2 ^ 53)"
proof -
  have "(2::rat) powi (- 1022) \<le> 2 powi (- 300)"
    by (intro power_int_increasing) simp_all
  also have "\<dots> = 1 / 2 ^ 300"
    by (simp add: power_int_minus_divide)
  finally have lo: "(2::rat) powi (- 1022) \<le> 1 / 2 ^ 300" .
  have "(0::rat) < 1 / 2 ^ 300" by simp
  with assms(1) have xpos: "0 < x" by linarith
  from lo assms(1) xpos have "2 powi (- 1022) \<le> \<bar>x\<bar>" by simp
  then have "\<bar>fl x - x\<bar> \<le> \<bar>x\<bar> / 2 ^ 53" by (rule fl_error)
  with xpos have "\<bar>fl x - x\<bar> \<le> x * (1 / 2 ^ 53)" by simp
  from rel_of_abs [OF this]
  have low: "x * (1 - 1 / 2 ^ 53) \<le> fl x" and up: "fl x \<le> x * (1 + 1 / 2 ^ 53)"
    by blast+
  have "0 \<le> x * (1 - 1 / 2 ^ 53)" using xpos by (intro mult_nonneg_nonneg) simp_all
  with low have nonneg: "0 \<le> fl x" by linarith
  have "x * (1 + 1 / 2 ^ 53) \<le> 2 ^ 300 * 2"
    using assms(2) xpos by (intro mult_mono) simp_all
  also have "\<dots> = (2::rat) ^ 301" by simp
  also have "\<dots> < 2 ^ 1024" by (intro power_strict_increasing) simp_all
  finally have "x * (1 + 1 / 2 ^ 53) < 2 ^ 1024" .
  with up nonneg have "\<bar>fl x\<bar> < 2 ^ 1024" by simp
  then have "to_double x = Some (fl x)" by (rule to_double_eqI)
  with low up show ?thesis by blast
qed

text \<open>
  The weighted average of two market caps lies between them, and the merge computed
  in doubles, five roundings in all, is within a relative error of \<open>2^-50\<close> of it (and
  the stored total within \<open>2^-53\<close> of the exact sum) for amounts and market caps between
  \<open>2^-100\<close> and \<open>2^100\<close>.
\<close>

lemma weighted_average_range:
  fixes oc ob nc nb lo hi :: rat
  assumes "lo \<le> oc" "oc \<le> hi" "lo \<le> nc" "nc \<le> hi" "0 < ob" "0 < nb"
  shows "lo \<le> (oc * ob + nc * nb) / (ob + nb) \<and> (oc * ob + nc * nb) / (ob + nb) \<le> hi"
proof -
  have T: "0 < ob + nb" using assms by simp
  have "lo * ob \<le> oc * ob" "lo * nb \<le> nc * nb" "oc * ob \<le> hi * ob" "nc * nb \<le> hi * nb"
    using assms by (simp_all add: mult_right_mono)
  then have "lo * (ob + nb) \<le> oc * ob + nc * nb" "oc * ob + nc * nb \<le> hi * (ob + nb)"
    by (simp_all add: algebra_simps)
  with T show ?thesis by (simp add: pos_le_divide_eq pos_divide_le_eq)
qed

lemma merge_rounding:
  fixes oc ob nc nb :: rat
  assumes oc: "1 / 2 ^ 100 \<le> oc" "oc \<le> 2 ^ 100"
    and ob: "1 / 2 ^ 100 \<le> ob" "ob \<le> 2 ^ 100"
    and nc: "1 / 2 ^ 100 \<le> nc" "nc \<le> 2 ^ 100"
    and nb: "1 / 2 ^ 100 \<le> nb" "nb \<le> 2 ^ 100"
  shows "\<exists>r t. dbl_add (Some ob) (Some nb) = Some t
      \<and> dbl_div (dbl_add (dbl_mul (Some oc) (Some ob)) (dbl_mul (Some nc) (Some nb))) (Some t)
          = Some r
      \<and> \<bar>t - (ob + nb)\<bar> \<le> (ob + nb) / 2 ^ 53
      \<and> \<bar>r - (oc * ob + nc * nb) / (ob + nb)\<bar> \<le> (oc * ob + nc * nb) / (ob + nb) / 2 ^ 50"
proof -
  define \<alpha> \<beta> :: rat where "\<alpha> = 1 - 1 / 2 ^ 53" and "\<beta> = 1 + 1 / 2 ^ 53"
  have \<alpha>: "0 < \<alpha>" "1 / 2 \<le> \<alpha>" "\<alpha> \<le> 1" and \<beta>: "1 \<le> \<beta>" "\<beta> \<le> 2" "0 < \<beta>"
    by (simp_all add: \<alpha>_def \<beta>_def)
  have num_lo: "1 - 1 / 2 ^ 50 \<le> \<alpha> * \<alpha> * \<alpha> / \<beta>" and num_hi: "\<beta> * \<beta> * \<beta> / \<alpha> \<le> 1 + 1 / 2 ^ 50"
    by (simp_all add: \<alpha>_def \<beta>_def)
  have rel: "\<exists>y. to_double x = Some y \<and> x * \<alpha> \<le> y \<and> y \<le> x * \<beta>"
    if "1 / 2 ^ 300 \<le> x" "x \<le> 2 ^ 300" for x
    using to_double_rel [OF that] by (simp add: \<alpha>_def \<beta>_def)
  have pos: "0 < oc" "0 < ob" "0 < nc" "0 < nb"
  proof -
    have "(0::rat) < 1 / 2 ^ 100" by simp
    with oc(1) ob(1) nc(1) nb(1) show "0 < oc" "0 < ob" "0 < nc" "0 < nb" by linarith+
  qed
  define pa pb N T E where "pa = oc * ob" and "pb = nc * nb" and "N = pa + pb"
    and "T = ob + nb" and "E = N / T"
  have pa: "1 / 2 ^ 200 \<le> pa" "pa \<le> 2 ^ 200"
  proof -
    have "(1 / 2 ^ 100) * (1 / 2 ^ 100) \<le> oc * ob"
      using oc(1) ob(1) by (intro mult_mono) simp_all
    then show "1 / 2 ^ 200 \<le> pa" by (simp add: pa_def)
    have "oc * ob \<le> 2 ^ 100 * 2 ^ 100"
      using oc(2) ob(2) pos by (intro mult_mono) simp_all
    then show "pa \<le> 2 ^ 200" by (simp add: pa_def)
  qed
  have pb: "1 / 2 ^ 200 \<le> pb" "pb \<le> 2 ^ 200"
  proof -
    have "(1 / 2 ^ 100) * (1 / 2 ^ 100) \<le> nc * nb"
      using nc(1) nb(1) by (intro mult_mono) simp_all
    then show "1 / 2 ^ 200 \<le> pb" by (simp add: pb_def)
    have "nc * nb \<le> 2 ^ 100 * 2 ^ 100"
      using nc(2) nb(2) pos by (intro mult_mono) simp_all
    then show "pb \<le> 2 ^ 200" by (simp add: pb_def)
  qed
  have Npos: "0 < N" and Tpos: "0 < T"
    using pa(1) pb(1) pos by (simp_all add: N_def T_def add_pos_pos pa_def pb_def)
  have Erange: "1 / 2 ^ 100 \<le> E" "E \<le> 2 ^ 100"
    using weighted_average_range [OF oc nc pos(2) pos(4)]
    by (simp_all add: E_def N_def T_def pa_def pb_def)
  have Epos: "0 < E" using Npos Tpos by (simp add: E_def)
  obtain a where a: "to_double pa = Some a" "pa * \<alpha> \<le> a" "a \<le> pa * \<beta>"
    using rel [of pa] pa by auto
  obtain b where b: "to_double pb = Some b" "pb * \<alpha> \<le> b" "b \<le> pb * \<beta>"
    using rel [of pb] pb by auto
  have ab: "N * \<alpha> \<le> a + b" "a + b \<le> N * \<beta>"
    using a b by (simp_all add: N_def algebra_simps)
  have ab_range: "1 / 2 ^ 300 \<le> a + b" "a + b \<le> 2 ^ 300"
  proof -
    have "(1 / 2 ^ 200) * (1 / 2) \<le> N * \<alpha>"
      using pa(1) pb(1) \<alpha> Npos by (intro mult_mono) (simp_all add: N_def)
    with ab(1) show "1 / 2 ^ 300 \<le> a + b" by simp
    have "N * \<beta> \<le> (2 ^ 200 + 2 ^ 200) * 2"
      using pa(2) pb(2) \<beta> Npos by (intro mult_mono) (simp_all add: N_def)
    with ab(2) show "a + b \<le> 2 ^ 300" by simp
  qed
  obtain s where s: "to_double (a + b) = Some s" "(a + b) * \<alpha> \<le> s" "s \<le> (a + b) * \<beta>"
    using rel [OF ab_range] by auto
  have s_lo: "N * \<alpha> * \<alpha> \<le> s"
  proof -
    have "N * \<alpha> * \<alpha> \<le> (a + b) * \<alpha>" using ab(1) \<alpha>(1) by (simp add: mult_right_mono)
    with s(2) show ?thesis by linarith
  qed
  have s_hi: "s \<le> N * \<beta> * \<beta>"
  proof -
    have "(a + b) * \<beta> \<le> N * \<beta> * \<beta>" using ab(2) \<beta>(3) by (simp add: mult_right_mono)
    with s(3) show ?thesis by linarith
  qed
  have spos: "0 < s"
  proof -
    have "0 < N * \<alpha> * \<alpha>" using Npos \<alpha>(1) by simp
    with s_lo show ?thesis by linarith
  qed
  have T_range: "1 / 2 ^ 300 \<le> T" "T \<le> 2 ^ 300"
    using ob nb by (simp_all add: T_def)
  obtain t where t: "to_double T = Some t" "T * \<alpha> \<le> t" "t \<le> T * \<beta>"
    using rel [OF T_range] by auto
  have tpos: "0 < t"
  proof -
    have "0 < T * \<alpha>" using Tpos \<alpha>(1) by simp
    with t(2) show ?thesis by linarith
  qed
  have q_lo: "E * (\<alpha> * \<alpha> / \<beta>) \<le> s / t"
  proof -
    have "N * \<alpha> * \<alpha> / (T * \<beta>) \<le> s / t"
      using s_lo t(3) tpos spos by (intro frac_le) simp_all
    then show ?thesis by (simp add: E_def)
  qed
  have q_hi: "s / t \<le> E * (\<beta> * \<beta> / \<alpha>)"
  proof -
    have "0 < T * \<alpha>" using Tpos \<alpha>(1) by simp
    moreover have "0 \<le> N * \<beta> * \<beta>" using Npos \<beta>(3) by simp
    ultimately have "s / t \<le> N * \<beta> * \<beta> / (T * \<alpha>)"
      using s_hi t(2) by (intro frac_le) simp_all
    then show ?thesis by (simp add: E_def)
  qed
  have f_lo: "1 / 8 \<le> \<alpha> * \<alpha> / \<beta>" and f_hi: "\<beta> * \<beta> / \<alpha> \<le> 8"
    by (simp_all add: \<alpha>_def \<beta>_def)
  have q_range: "1 / 2 ^ 300 \<le> s / t" "s / t \<le> 2 ^ 300"
  proof -
    have "(1::rat) / 2 ^ 300 \<le> (1 / 2 ^ 100) * (1 / 8)" by simp
    also have "\<dots> \<le> E * (\<alpha> * \<alpha> / \<beta>)"
      using Erange(1) f_lo Epos by (intro mult_mono) simp_all
    also note q_lo
    finally show "1 / 2 ^ 300 \<le> s / t" .
    have nonneg: "0 \<le> \<beta> * \<beta> / \<alpha>" using \<alpha>(1) \<beta>(3) by simp
    note q_hi
    also have "E * (\<beta> * \<beta> / \<alpha>) \<le> 2 ^ 100 * 8"
      using Erange(2) f_hi Epos nonneg by (intro mult_mono) simp_all
    also have "\<dots> \<le> (2::rat) ^ 300" by simp
    finally show "s / t \<le> 2 ^ 300" .
  qed
  obtain r where r: "to_double (s / t) = Some r" "(s / t) * \<alpha> \<le> r" "r \<le> (s / t) * \<beta>"
    using rel [OF q_range] by auto
  have r_lo: "E * (1 - 1 / 2 ^ 50) \<le> r"
  proof -
    have "E * (1 - 1 / 2 ^ 50) \<le> E * (\<alpha> * \<alpha> * \<alpha> / \<beta>)"
      using num_lo Epos by (intro mult_left_mono) simp_all
    also have "\<dots> = E * (\<alpha> * \<alpha> / \<beta>) * \<alpha>" by simp
    also have "\<dots> \<le> (s / t) * \<alpha>" using q_lo \<alpha>(1) by (intro mult_right_mono) simp_all
    also note r(2)
    finally show ?thesis .
  qed
  have r_hi: "r \<le> E * (1 + 1 / 2 ^ 50)"
  proof -
    note r(3)
    also have "(s / t) * \<beta> \<le> E * (\<beta> * \<beta> / \<alpha>) * \<beta>"
      using q_hi \<beta>(3) by (intro mult_right_mono) simp_all
    also have "\<dots> = E * (\<beta> * \<beta> * \<beta> / \<alpha>)" by simp
    also have "\<dots> \<le> E * (1 + 1 / 2 ^ 50)"
      using num_hi Epos by (intro mult_left_mono) simp_all
    finally show ?thesis .
  qed
  have r_err: "\<bar>r - E\<bar> \<le> E / 2 ^ 50"
  proof -
    define d where "d = E / 2 ^ 50"
    have "E * (1 - 1 / 2 ^ 50) = E - d" "E * (1 + 1 / 2 ^ 50) = E + d"
      by (simp_all add: d_def algebra_simps)
    with r_lo r_hi have "E - d \<le> r" "r \<le> E + d" by simp_all
    then have "\<bar>r - E\<bar> \<le> d" by linarith
    then show ?thesis by (simp only: d_def)
  qed
  have t_err: "\<bar>t - T\<bar> \<le> T / 2 ^ 53"
  proof -
    define d where "d = T / 2 ^ 53"
    have "T * \<alpha> = T - d" "T * \<beta> = T + d"
      by (simp_all add: d_def \<alpha>_def \<beta>_def algebra_simps)
    with t have "T - d \<le> t" "t \<le> T + d" by simp_all
    then have "\<bar>t - T\<bar> \<le> d" by linarith
    then show ?thesis by (simp only: d_def)
  qed
  have sum: "dbl_add (Some ob) (Some nb) = Some t"
    using t(1) by (simp add: dbl_add_def T_def)
  have quot: "dbl_div (dbl_add (dbl_mul (Some oc) (Some ob)) (dbl_mul (Some nc) (Some nb)))
      (Some t) = Some r"
    using a(1) b(1) s(1) r(1) tpos
    by (simp add: dbl_div_def dbl_add_def dbl_mul_def pa_def pb_def)
  from sum quot t_err r_err show ?thesis
    unfolding E_def N_def T_def pa_def pb_def by blast
qed

text \<open>
  Small integers are doubles, so the merge of \<open>1\<close> at \<open>100\<close> with \<open>1\<close> at \<open>200\<close> is
  exact: a total of \<open>2\<close> and a market cap of \<open>150\<close>.
\<close>

lemma fl_small_int:
  assumes "2 powi k \<le> \<bar>of_int m :: rat\<bar>" and "\<bar>of_int m :: rat\<bar> < 2 powi (k + 1)"
    and "0 \<le> k" and "k \<le> 52"
  shows "fl (of_int m) = of_int m"
proof -
  have "fl (of_int m) = of_int (round_even (of_int m / 2 powi (k - 52))) * 2 powi (k - 52)"
    using assms(1,2) by (rule fl_eqI) (use assms(3) in simp)
  also have "(of_int m :: rat) / 2 powi (k - 52) = of_int (m * 2 ^ nat (52 - k))"
  proof -
    have "(2::rat) powi (k - 52) = 1 / 2 powi (52 - k)"
      by (simp add: power_int_diff)
    also have "(2::rat) powi (52 - k) = 2 ^ nat (52 - k)"
      using assms(4) by (simp add: power_int_def)
    finally show ?thesis by simp
  qed
  also have "round_even (of_int (m * 2 ^ nat (52 - k))) = m * 2 ^ nat (52 - k)"
    by (rule round_even_int)
  also have "of_int (m * 2 ^ nat (52 - k)) * 2 powi (k - 52) = (of_int m :: rat)"
  proof -
    have "(2::rat) powi (k - 52) = 1 / 2 powi (52 - k)"
      by (simp add: power_int_diff)
    also have "(2::rat) powi (52 - k) = 2 ^ nat (52 - k)"
      using assms(4) by (simp add: power_int_def)
    finally show ?thesis by simp
  qed
  finally show ?thesis .
qed

lemma fl_examples:
  "fl 100 = 100" "fl 200 = 200" "fl 300 = 300" "fl 2 = 2" "fl 150 = 150"
  using fl_small_int [of 6 100] fl_small_int [of 7 200] fl_small_int [of 8 300]
    fl_small_int [of 1 2] fl_small_int [of 7 150]
  by simp_all

lemma to_double_examples:
  "to_double 100 = Some 100" "to_double 200 = Some 200" "to_double 300 = Some 300"
  "to_double 2 = Some 2" "to_double 150 = Some 150"
  by (simp_all add: to_double_def fl_examples)

lemma merge_1_100_1_200:
  "dbl_div (dbl_add (dbl_mul (Some 100) (Some 1)) (dbl_mul (Some 200) (Some 1)))
           (dbl_add (Some 1) (Some 1)) = Some 150"
  "dbl_add (Some 1) (Some 1) = Some 2"
  "dbl_div (dbl_add (dbl_mul (Some 100) (Some 1)) (dbl_mul (Some 200) (Some 1))) (Some 2)
     = Some 150"
  by (simp_all add: dbl_div_def dbl_add_def dbl_mul_def to_double_examples)

text \<open>
  The merge of \<open>0.001\<close> at \<open>100\<close> with \<open>0.003\<close> at \<open>200\<close>, rounding by rounding: the
  amounts as \<open>parseFloat\<close> reads them, the two products, their sum, the total and the
  quotient, which is \<open>175 - 2^-45\<close> (printed \<open>174.99999999999997\<close>).
\<close>

lemma fl_0_001: "fl (1 / 1000) = 1152921504606847 / 1152921504606846976"
proof -
  have "fl (1 / 1000) =
      of_int (round_even ((1 / 1000) / 2 powi (-10 - 52))) * 2 powi (-10 - 52)"
    by (rule fl_eqI) simp_all
  also have "round_even ((1 / 1000) / 2 powi (-10 - 52)) = 4611686018427388"
    by code_simp
  finally show ?thesis by simp
qed

lemma fl_0_003: "fl (3 / 1000) = 3458764513820541 / 1152921504606846976"
proof -
  have "fl (3 / 1000) =
      of_int (round_even ((3 / 1000) / 2 powi (-9 - 52))) * 2 powi (-9 - 52)"
    by (rule fl_eqI) simp_all
  also have "round_even ((3 / 1000) / 2 powi (-9 - 52)) = 6917529027641082"
    by code_simp
  finally show ?thesis by simp
qed

lemma fl_cap_old: "fl (28823037615171175 / 288230376151711744) = 3602879701896397 / 36028797018963968"
proof -
  have "fl (28823037615171175 / 288230376151711744) =
      of_int (round_even ((28823037615171175 / 288230376151711744) / 2 powi (-4 - 52))) * 2 powi (-4 - 52)"
    by (rule fl_eqI) simp_all
  also have "round_even ((28823037615171175 / 288230376151711744) / 2 powi (-4 - 52)) = 7205759403792794"
    by code_simp
  finally show ?thesis by simp
qed

lemma fl_cap_new: "fl (86469112845513525 / 144115188075855872) = 5404319552844595 / 9007199254740992"
proof -
  have "fl (86469112845513525 / 144115188075855872) =
      of_int (round_even ((86469112845513525 / 144115188075855872) / 2 powi (-1 - 52))) * 2 powi (-1 - 52)"
    by (rule fl_eqI) simp_all
  also have "round_even ((86469112845513525 / 144115188075855872) / 2 powi (-1 - 52)) = 5404319552844595"
    by code_simp
  finally show ?thesis by simp
qed

lemma fl_cap_sum: "fl (25220157913274777 / 36028797018963968) = 3152519739159347 / 4503599627370496"
proof -
  have "fl (25220157913274777 / 36028797018963968) =
      of_int (round_even ((25220157913274777 / 36028797018963968) / 2 powi (-1 - 52))) * 2 powi (-1 - 52)"
    by (rule fl_eqI) simp_all
  also have "round_even ((25220157913274777 / 36028797018963968) / 2 powi (-1 - 52)) = 6305039478318694"
    by code_simp
  finally show ?thesis by simp
qed

lemma fl_total: "fl (1152921504606847 / 288230376151711744) = 1152921504606847 / 288230376151711744"
proof -
  have "fl (1152921504606847 / 288230376151711744) =
      of_int (round_even ((1152921504606847 / 288230376151711744) / 2 powi (-8 - 52))) * 2 powi (-8 - 52)"
    by (rule fl_eqI) simp_all
  also have "round_even ((1152921504606847 / 288230376151711744) / 2 powi (-8 - 52)) = 4611686018427388"
    by code_simp
  finally show ?thesis by simp
qed

lemma fl_quotient: "fl (201761263306198208 / 1152921504606847) = 6157265115545599 / 35184372088832"
proof -
  have "fl (201761263306198208 / 1152921504606847) =
      of_int (round_even ((201761263306198208 / 1152921504606847) / 2 powi (7 - 52))) * 2 powi (7 - 52)"
    by (rule fl_eqI) simp_all
  also have "round_even ((201761263306198208 / 1152921504606847) / 2 powi (7 - 52)) = 6157265115545599"
    by code_simp
  finally show ?thesis by simp
qed

lemma to_double_presets:
  "to_double (1 / 1000) = Some dbl_0_001" "to_double (3 / 1000) = Some dbl_0_003"
  by (simp_all add: to_double_def fl_0_001 fl_0_003 dbl_0_001_def dbl_0_003_def)

lemma merge_presets:
  "dbl_add (Some dbl_0_001) (Some dbl_0_003) = Some (1152921504606847 / 288230376151711744)"
  "dbl_div (dbl_add (dbl_mul (Some 100) (Some dbl_0_001)) (dbl_mul (Some 200) (Some dbl_0_003)))
           (dbl_add (Some dbl_0_001) (Some dbl_0_003))
     = Some (6157265115545599 / 35184372088832)"
  "dbl_div (dbl_add (dbl_mul (Some 100) (Some dbl_0_001)) (dbl_mul (Some 200) (Some dbl_0_003)))
           (Some (1152921504606847 / 288230376151711744))
     = Some (6157265115545599 / 35184372088832)"
  by (simp_all add: dbl_div_def dbl_add_def dbl_mul_def to_double_def dbl_0_001_def dbl_0_003_def
      fl_cap_old fl_cap_new fl_cap_sum fl_total fl_quotient)

subsection \<open>Ledger updates\<close>

text \<open>
  What \<open>findIndex\<close> finds: an index within the ledger whose address has the
  checksummed form of the token's; and \<open>None\<close> only when no stored address has.
\<close>

lemma findIndex_Some_bound:
  "findIndex getAddress tokenAddr ps = Inr (Some i) \<Longrightarrow> i < length ps"
proof (induction ps arbitrary: i)
  case Nil
  then show ?case by simp
next
  case (Cons p ps)
  then show ?case
    by (auto split: sum.splits if_splits option.splits)
qed

lemma findIndex_Some_match:
  "findIndex getAddress tokenAddr ps = Inr (Some i) \<Longrightarrow>
   \<exists>a. getAddress (tokenAddress (ps ! i)) = Inr a \<and> getAddress tokenAddr = Inr a"
proof (induction ps arbitrary: i)
  case Nil
  then show ?case by simp
next
  case (Cons p ps)
  then show ?case
    by (auto split: sum.splits if_splits option.splits)
qed

lemma findIndex_None_absent:
  "findIndex getAddress tokenAddr ps = Inr None \<Longrightarrow> p \<in> set ps \<Longrightarrow>
   getAddress (tokenAddress p) \<noteq> getAddress tokenAddr"
proof (induction ps)
  case Nil
  then show ?case by simp
next
  case (Cons q ps)
  then show ?case
    by (auto split: sum.splits if_splits option.splits)
qed

text \<open>
  Conversely, \<open>findIndex\<close> returns the first position whose address has the token's
  checksummed form, when every address before it is valid and has another form; and
  \<open>None\<close> when every stored address is valid and has another form.
\<close>

lemma findIndex_no_match:
  assumes "getAddress tokenAddr = Inr a"
    and "\<forall>p\<in>set ps. \<exists>b. getAddress (tokenAddress p) = Inr b \<and> b \<noteq> a"
  shows "findIndex getAddress tokenAddr ps = Inr None"
  using assms(2)
proof (induction ps)
  case Nil
  then show ?case by simp
next
  case (Cons p ps)
  then obtain b where "getAddress (tokenAddress p) = Inr b" "b \<noteq> a" by auto
  with Cons assms(1) show ?case by simp
qed

lemma findIndex_first_match:
  assumes "getAddress tokenAddr = Inr a"
    and "i < length ps"
    and "getAddress (tokenAddress (ps ! i)) = Inr a"
    and "\<forall>j<i. \<exists>b. getAddress (tokenAddress (ps ! j)) = Inr b \<and> b \<noteq> a"
  shows "findIndex getAddress tokenAddr ps = Inr (Some i)"
  using assms(2-4)
proof (induction ps arbitrary: i)
  case Nil
  then show ?case by simp
next
  case (Cons p ps)
  show ?case
  proof (cases i)
    case 0
    with Cons.prems assms(1) show ?thesis by simp
  next
    case (Suc k)
    with Cons.prems have k: "k < length ps" "getAddress (tokenAddress (ps ! k)) = Inr a"
      by simp_all
    have earlier: "\<forall>j<k. \<exists>b. getAddress (tokenAddress (ps ! j)) = Inr b \<and> b \<noteq> a"
    proof (intro allI impI)
      fix j assume "j < k"
      then have "Suc j < i" using Suc by simp
      with Cons.prems(3) have "\<exists>b. getAddress (tokenAddress ((p # ps) ! Suc j)) = Inr b \<and> b \<noteq> a"
        by blast
      then show "\<exists>b. getAddress (tokenAddress (ps ! j)) = Inr b \<and> b \<noteq> a" by simp
    qed
    from Cons.prems(3) Suc have "\<exists>b. getAddress (tokenAddress ((p # ps) ! 0)) = Inr b \<and> b \<noteq> a"
      by blast
    then obtain b where b: "getAddress (tokenAddress p) = Inr b" "b \<noteq> a" by auto
    from Cons.IH [OF k earlier] b assms(1) Suc show ?thesis by simp
  qed
qed

lemma updateAndSavePosition_merge:
  assumes "findIndex getAddress tokenAddr (loadPositions fs) = Inr (Some i)"
    and "writable fs"
  shows "updateAndSavePosition getAddress now (Inr pairInfo) tokenAddr ethAmount fs =
    (Inr (),
     fs\<lparr> positions_file := Some ((loadPositions fs)
        [i := (loadPositions fs ! i)
           \<lparr> initialMarketCap :=
                dbl_div (dbl_add (dbl_mul (initialMarketCap (loadPositions fs ! i))
                                          (initialEthValue (loadPositions fs ! i)))
                                 (dbl_mul (pair_marketCap pairInfo) ethAmount))
                        (dbl_add (initialEthValue (loadPositions fs ! i)) ethAmount),
              initialEthValue := dbl_add (initialEthValue (loadPositions fs ! i)) ethAmount,
              timestamp := now \<rparr>]) \<rparr>)"
  using assms by (simp add: updateAndSavePosition_def Let_def savePositions_ok)

lemma updateAndSavePosition_append:
  assumes "findIndex getAddress tokenAddr (loadPositions fs) = Inr None"
    and "writable fs"
  shows "updateAndSavePosition getAddress now (Inr pairInfo) tokenAddr ethAmount fs =
    (Inr (),
     fs\<lparr> positions_file := Some (loadPositions fs @
        [\<lparr> tokenAddress = tokenAddr, pairAddress = pair_pairAddress pairInfo,
           initialEthValue = ethAmount, initialMarketCap = pair_marketCap pairInfo,
           timestamp = now \<rparr>]) \<rparr>)"
  using assms by (simp add: updateAndSavePosition_def Let_def savePositions_ok)

lemma toLowerCase_0xA: "toLowerCase ''0xA'' = ''0xa''" "toLowerCase ''0xa'' = ''0xa''"
  "toLowerCase ''0xB'' = ''0xb''"
  by code_simp+

lemma findIndex_preset: "findIndex getAddress_lower ''0xa'' (loadPositions preset_fs) = Inr (Some 1)"
  by (simp add: getAddress_lower_def loadPositions_def preset_fs_def preset_position_def
      tokenB_position_def toLowerCase_0xA)

text \<open>
  Claim C6, as amended: when the write succeeds, \<open>updateAndSavePosition\<close> merges an
  entry for a token the ledger already holds (at the first position whose address has
  the token's checksummed form) by the value-weighted average computed in double
  precision: the position keeps its place and its other fields, its timestamp becomes
  the current time, its \<open>initialEthValue\<close> becomes \<open>oldBase + newBase\<close> rounded to a
  double, and its \<open>initialMarketCap\<close> becomes
  \<open>(oldCap * oldBase + newCap * newBase) / (oldBase + newBase)\<close> with each operation
  rounded, which is the exact weighted average up to a relative error of \<open>2^-50\<close> (for
  amounts and market caps between \<open>2^-100\<close> and \<open>2^100\<close>). An entry for a token no
  stored address matches appends a position with the given amount and market cap.
  Entering such a token with 1 ETH at a market cap of 100 and again with 1 ETH at 200
  adds exactly one position to the ledger, with \<open>initialEthValue = 2\<close> and
  \<open>initialMarketCap = 150\<close> exactly.
\<close>

theorem updateAndSavePosition_weighted_merge:
  "(writable fs \<and> getAddress tokenAddr = Inr a
      \<and> i < length (loadPositions fs)
      \<and> getAddress (tokenAddress (loadPositions fs ! i)) = Inr a
      \<and> (\<forall>j<i. \<exists>b. getAddress (tokenAddress (loadPositions fs ! j)) = Inr b \<and> b \<noteq> a)
      \<and> initialEthValue (loadPositions fs ! i) = Some oldBase
      \<and> initialMarketCap (loadPositions fs ! i) = Some oldCap
      \<and> pair_marketCap pairInfo = Some newCap
      \<and> 1 / 2 ^ 100 \<le> oldBase \<and> oldBase \<le> 2 ^ 100
      \<and> 1 / 2 ^ 100 \<le> oldCap \<and> oldCap \<le> 2 ^ 100
      \<and> 1 / 2 ^ 100 \<le> newBase \<and> newBase \<le> 2 ^ 100
      \<and> 1 / 2 ^ 100 \<le> newCap \<and> newCap \<le> 2 ^ 100 \<longrightarrow>
      (\<exists>fs' r t.
         updateAndSavePosition getAddress now (Inr pairInfo) tokenAddr (Some newBase) fs
           = (Inr (), fs')
         \<and> loadPositions fs' = (loadPositions fs)
              [i := (loadPositions fs ! i)
                 \<lparr> initialMarketCap := Some r, initialEthValue := Some t, timestamp := now \<rparr>]
         \<and> \<bar>r - (oldCap * oldBase + newCap * newBase) / (oldBase + newBase)\<bar>
             \<le> (oldCap * oldBase + newCap * newBase) / (oldBase + newBase) / 2 ^ 50
         \<and> \<bar>t - (oldBase + newBase)\<bar> \<le> (oldBase + newBase) / 2 ^ 53))
   \<and> (writable fs \<and> getAddress tokenAddr = Inr a
        \<and> (\<forall>p\<in>set (loadPositions fs). \<exists>b. getAddress (tokenAddress p) = Inr b \<and> b \<noteq> a) \<longrightarrow>
      (\<exists>fs'. updateAndSavePosition getAddress now (Inr pairInfo) tokenAddr ethAmount fs
                = (Inr (), fs')
         \<and> loadPositions fs' = loadPositions fs @
              [\<lparr> tokenAddress = tokenAddr, pairAddress = pair_pairAddress pairInfo,
                 initialEthValue = ethAmount, initialMarketCap = pair_marketCap pairInfo,
                 timestamp = now \<rparr>]))
   \<and> (writable fs \<and> getAddress tokenAddr = Inr a
        \<and> (\<forall>p\<in>set (loadPositions fs). \<exists>b. getAddress (tokenAddress p) = Inr b \<and> b \<noteq> a) \<longrightarrow>
      loadPositions
        (snd (updateAndSavePosition getAddress second_now
                (Inr \<lparr> pair_pairAddress = pair, pair_marketCap = Some 200 \<rparr>) tokenAddr (Some 1)
           (snd (updateAndSavePosition getAddress first_now
                (Inr \<lparr> pair_pairAddress = pair, pair_marketCap = Some 100 \<rparr>) tokenAddr (Some 1)
                fs))))
        = loadPositions fs @
            [\<lparr> tokenAddress = tokenAddr, pairAddress = pair, initialEthValue = Some 2,
               initialMarketCap = Some 150, timestamp = second_now \<rparr>])"
proof (intro conjI impI)
  assume h: "writable fs \<and> getAddress tokenAddr = Inr a
      \<and> i < length (loadPositions fs)
      \<and> getAddress (tokenAddress (loadPositions fs ! i)) = Inr a
      \<and> (\<forall>j<i. \<exists>b. getAddress (tokenAddress (loadPositions fs ! j)) = Inr b \<and> b \<noteq> a)
      \<and> initialEthValue (loadPositions fs ! i) = Some oldBase
      \<and> initialMarketCap (loadPositions fs ! i) = Some oldCap
      \<and> pair_marketCap pairInfo = Some newCap
      \<and> 1 / 2 ^ 100 \<le> oldBase \<and> oldBase \<le> 2 ^ 100
      \<and> 1 / 2 ^ 100 \<le> oldCap \<and> oldCap \<le> 2 ^ 100
      \<and> 1 / 2 ^ 100 \<le> newBase \<and> newBase \<le> 2 ^ 100
      \<and> 1 / 2 ^ 100 \<le> newCap \<and> newCap \<le> 2 ^ 100"
  then have found: "findIndex getAddress tokenAddr (loadPositions fs) = Inr (Some i)"
    by (intro findIndex_first_match [where a = a]) simp_all
  from h have w: "writable fs" by simp
  from h obtain r t where
    t: "dbl_add (Some oldBase) (Some newBase) = Some t"
    and r: "dbl_div (dbl_add (dbl_mul (Some oldCap) (Some oldBase))
                             (dbl_mul (Some newCap) (Some newBase))) (Some t) = Some r"
    and terr: "\<bar>t - (oldBase + newBase)\<bar> \<le> (oldBase + newBase) / 2 ^ 53"
    and rerr: "\<bar>r - (oldCap * oldBase + newCap * newBase) / (oldBase + newBase)\<bar>
             \<le> (oldCap * oldBase + newCap * newBase) / (oldBase + newBase) / 2 ^ 50"
    using merge_rounding [of oldCap oldBase newCap newBase] by blast
  have "updateAndSavePosition getAddress now (Inr pairInfo) tokenAddr (Some newBase) fs
      = (Inr (), fs\<lparr> positions_file := Some ((loadPositions fs)
              [i := (loadPositions fs ! i)
                 \<lparr> initialMarketCap := Some r, initialEthValue := Some t,
                   timestamp := now \<rparr>]) \<rparr>)"
    using h t r by (simp add: updateAndSavePosition_merge [OF found w])
  moreover have "loadPositions (fs\<lparr> positions_file := Some ((loadPositions fs)
              [i := (loadPositions fs ! i)
                 \<lparr> initialMarketCap := Some r, initialEthValue := Some t,
                   timestamp := now \<rparr>]) \<rparr>)
      = (loadPositions fs)
              [i := (loadPositions fs ! i)
                 \<lparr> initialMarketCap := Some r, initialEthValue := Some t, timestamp := now \<rparr>]"
    by (simp add: loadPositions_def)
  ultimately show "\<exists>fs' r t.
         updateAndSavePosition getAddress now (Inr pairInfo) tokenAddr (Some newBase) fs
           = (Inr (), fs')
         \<and> loadPositions fs' = (loadPositions fs)
              [i := (loadPositions fs ! i)
                 \<lparr> initialMarketCap := Some r, initialEthValue := Some t, timestamp := now \<rparr>]
         \<and> \<bar>r - (oldCap * oldBase + newCap * newBase) / (oldBase + newBase)\<bar>
             \<le> (oldCap * oldBase + newCap * newBase) / (oldBase + newBase) / 2 ^ 50
         \<and> \<bar>t - (oldBase + newBase)\<bar> \<le> (oldBase + newBase) / 2 ^ 53"
    using rerr terr by blast
next
  assume h: "writable fs \<and> getAddress tokenAddr = Inr a
        \<and> (\<forall>p\<in>set (loadPositions fs). \<exists>b. getAddress (tokenAddress p) = Inr b \<and> b \<noteq> a)"
  then have absent: "findIndex getAddress tokenAddr (loadPositions fs) = Inr None"
    by (intro findIndex_no_match [where a = a]) simp_all
  from h have w: "writable fs" by simp
  show "\<exists>fs'. updateAndSavePosition getAddress now (Inr pairInfo) tokenAddr ethAmount fs
                = (Inr (), fs')
         \<and> loadPositions fs' = loadPositions fs @
              [\<lparr> tokenAddress = tokenAddr, pairAddress = pair_pairAddress pairInfo,
                 initialEthValue = ethAmount, initialMarketCap = pair_marketCap pairInfo,
                 timestamp = now \<rparr>]"
    by (simp add: updateAndSavePosition_append [OF absent w]) (simp add: loadPositions_def)
next
  assume h: "writable fs \<and> getAddress tokenAddr = Inr a
        \<and> (\<forall>p\<in>set (loadPositions fs). \<exists>b. getAddress (tokenAddress p) = Inr b \<and> b \<noteq> a)"
  then have absent: "findIndex getAddress tokenAddr (loadPositions fs) = Inr None"
    by (intro findIndex_no_match [where a = a]) simp_all
  from h have w: "writable fs" and ga: "getAddress tokenAddr = Inr a" by simp_all
  define ps where "ps = loadPositions fs"
  define p where "p = \<lparr> tokenAddress = tokenAddr, pairAddress = pair, initialEthValue = Some 1,
             initialMarketCap = Some 100, timestamp = first_now \<rparr>"
  define fs1 where "fs1 = fs\<lparr> positions_file := Some (ps @ [p]) \<rparr>"
  have first: "updateAndSavePosition getAddress first_now
                (Inr \<lparr> pair_pairAddress = pair, pair_marketCap = Some 100 \<rparr>) tokenAddr (Some 1) fs
      = (Inr (), fs1)"
    by (simp add: updateAndSavePosition_append [OF absent w] fs1_def ps_def p_def)
  have load1: "loadPositions fs1 = ps @ [p]" by (simp add: fs1_def loadPositions_def)
  have w1: "writable fs1" using w by (simp add: fs1_def)
  have found: "findIndex getAddress tokenAddr (loadPositions fs1) = Inr (Some (length ps))"
  proof (rule findIndex_first_match [where a = a])
    show "getAddress tokenAddr = Inr a" by (rule ga)
    show "length ps < length (loadPositions fs1)" by (simp add: load1)
    show "getAddress (tokenAddress (loadPositions fs1 ! length ps)) = Inr a"
      using ga by (simp add: load1 p_def)
    show "\<forall>j<length ps. \<exists>b. getAddress (tokenAddress (loadPositions fs1 ! j)) = Inr b \<and> b \<noteq> a"
    proof (intro allI impI)
      fix j assume j: "j < length ps"
      then have "ps ! j \<in> set (loadPositions fs)" by (simp add: ps_def)
      with h have "\<exists>b. getAddress (tokenAddress (ps ! j)) = Inr b \<and> b \<noteq> a" by blast
      with j show "\<exists>b. getAddress (tokenAddress (loadPositions fs1 ! j)) = Inr b \<and> b \<noteq> a"
        by (simp add: load1 nth_append)
    qed
  qed
  have second: "updateAndSavePosition getAddress second_now
                (Inr \<lparr> pair_pairAddress = pair, pair_marketCap = Some 200 \<rparr>) tokenAddr (Some 1) fs1
      = (Inr (), fs1\<lparr> positions_file := Some (ps @
            [\<lparr> tokenAddress = tokenAddr, pairAddress = pair, initialEthValue = Some 2,
               initialMarketCap = Some 150, timestamp = second_now \<rparr>]) \<rparr>)"
    by (simp add: updateAndSavePosition_merge [OF found w1] load1)
       (simp add: p_def merge_1_100_1_200)
  show "loadPositions
        (snd (updateAndSavePosition getAddress second_now
                (Inr \<lparr> pair_pairAddress = pair, pair_marketCap = Some 200 \<rparr>) tokenAddr (Some 1)
           (snd (updateAndSavePosition getAddress first_now
                (Inr \<lparr> pair_pairAddress = pair, pair_marketCap = Some 100 \<rparr>) tokenAddr (Some 1)
                fs))))
        = loadPositions fs @
            [\<lparr> tokenAddress = tokenAddr, pairAddress = pair, initialEthValue = Some 2,
               initialMarketCap = Some 150, timestamp = second_now \<rparr>]"
    by (simp add: first second) (simp add: loadPositions_def ps_def)
qed

theorem updateAndSavePosition_weighted_merge_witness:
  "(\<exists>fs' r t.
       updateAndSavePosition getAddress_lower 2000
           (Inr \<lparr> pair_pairAddress = ''0xPA'', pair_marketCap = Some 200 \<rparr>) ''0xa'' (Some 1)
           reversed_positions_fs = (Inr (), fs')
       \<and> loadPositions fs' =
            [tokenB_position,
             tokenA_position\<lparr> initialMarketCap := Some r, initialEthValue := Some t,
                               timestamp := 2000 \<rparr>]
       \<and> \<bar>r - 150\<bar> \<le> 150 / 2 ^ 50 \<and> \<bar>t - 2\<bar> \<le> 2 / 2 ^ 53)
   \<and> (\<exists>fs'. updateAndSavePosition getAddress_lower 1000
             (Inr \<lparr> pair_pairAddress = ''0xPA'', pair_marketCap = Some 100 \<rparr>) ''0xA'' (Some 1)
             tokenB_fs = (Inr (), fs')
        \<and> loadPositions fs' = [tokenB_position, tokenA_position])
   \<and> loadPositions
        (snd (updateAndSavePosition getAddress_lower 2000
                (Inr \<lparr> pair_pairAddress = ''0xPA'', pair_marketCap = Some 200 \<rparr>) ''0xA'' (Some 1)
           (snd (updateAndSavePosition getAddress_lower 1000
                (Inr \<lparr> pair_pairAddress = ''0xPA'', pair_marketCap = Some 100 \<rparr>) ''0xA'' (Some 1)
                tokenB_fs))))
        = [tokenB_position,
           \<lparr> tokenAddress = ''0xA'', pairAddress = ''0xPA'', initialEthValue = Some 2,
             initialMarketCap = Some 150, timestamp = 2000 \<rparr>]"
proof -
  note ex = getAddress_lower_def toLowerCase_0xA loadPositions_def tokenA_position_def
    tokenB_position_def
  have merge: "\<exists>fs' r t.
       updateAndSavePosition getAddress_lower 2000
           (Inr \<lparr> pair_pairAddress = ''0xPA'', pair_marketCap = Some 200 \<rparr>) ''0xa'' (Some 1)
           reversed_positions_fs = (Inr (), fs')
       \<and> loadPositions fs' =
            [tokenB_position,
             tokenA_position\<lparr> initialMarketCap := Some r, initialEthValue := Some t,
                               timestamp := 2000 \<rparr>]
       \<and> \<bar>r - 150\<bar> \<le> 150 / 2 ^ 50 \<and> \<bar>t - 2\<bar> \<le> 2 / 2 ^ 53"
    using updateAndSavePosition_weighted_merge [where fs = reversed_positions_fs
        and getAddress = getAddress_lower and tokenAddr = "''0xa''" and a = "''0xa''" and i = 1
        and oldBase = 1 and oldCap = 100 and newBase = 1 and newCap = 200 and now = 2000
        and pairInfo = "\<lparr> pair_pairAddress = ''0xPA'', pair_marketCap = Some 200 \<rparr>"]
    by (simp add: reversed_positions_fs_def ex)
  have append: "\<exists>fs'. updateAndSavePosition getAddress_lower 1000
             (Inr \<lparr> pair_pairAddress = ''0xPA'', pair_marketCap = Some 100 \<rparr>) ''0xA'' (Some 1)
             tokenB_fs = (Inr (), fs')
        \<and> loadPositions fs' = [tokenB_position, tokenA_position]"
    using updateAndSavePosition_weighted_merge [where fs = tokenB_fs
        and getAddress = getAddress_lower and tokenAddr = "''0xA''" and a = "''0xa''"
        and now = 1000 and ethAmount = "Some 1"
        and pairInfo = "\<lparr> pair_pairAddress = ''0xPA'', pair_marketCap = Some 100 \<rparr>"]
    by (simp add: tokenB_fs_def ex)
  have twice: "loadPositions
        (snd (updateAndSavePosition getAddress_lower 2000
                (Inr \<lparr> pair_pairAddress = ''0xPA'', pair_marketCap = Some 200 \<rparr>) ''0xA'' (Some 1)
           (snd (updateAndSavePosition getAddress_lower 1000
                (Inr \<lparr> pair_pairAddress = ''0xPA'', pair_marketCap = Some 100 \<rparr>) ''0xA'' (Some 1)
                tokenB_fs))))
        = [tokenB_position,
           \<lparr> tokenAddress = ''0xA'', pairAddress = ''0xPA'', initialEthValue = Some 2,
             initialMarketCap = Some 150, timestamp = 2000 \<rparr>]"
    using updateAndSavePosition_weighted_merge [where fs = tokenB_fs
        and getAddress = getAddress_lower and tokenAddr = "''0xA''" and a = "''0xa''"
        and first_now = 1000 and second_now = 2000 and pair = "''0xPA''"]
    by (simp add: tokenB_fs_def ex)
  from merge append twice show ?thesis by blast
qed

text \<open>
  As stated, with an exact equality, the claim fails: merging \<open>0.003\<close> ETH at a market
  cap of \<open>200\<close> into a position of \<open>0.001\<close> ETH at \<open>100\<close> (the second of two stored
  positions) stores \<open>175 - 2^-45\<close>, while the weighted average of the stored values is
  exactly \<open>175\<close>.
\<close>

theorem updateAndSavePosition_rounds:
  "updateAndSavePosition getAddress_lower 2000
      (Inr \<lparr> pair_pairAddress = ''0xPA'', pair_marketCap = Some 200 \<rparr>) ''0xa''
      (Some dbl_0_003) preset_fs
    = (Inr (),
       preset_fs\<lparr> positions_file := Some
         [tokenB_position,
          preset_position\<lparr> initialMarketCap := Some (6157265115545599 / 35184372088832),
                            initialEthValue := Some (1152921504606847 / 288230376151711744),
                            timestamp := 2000 \<rparr>] \<rparr>)
   \<and> (100 * dbl_0_001 + 200 * dbl_0_003) / (dbl_0_001 + dbl_0_003) = 175
   \<and> (6157265115545599 / 35184372088832 :: rat) \<noteq> 175"
proof -
  have w: "writable preset_fs" by (simp add: preset_fs_def)
  have "updateAndSavePosition getAddress_lower 2000
      (Inr \<lparr> pair_pairAddress = ''0xPA'', pair_marketCap = Some 200 \<rparr>) ''0xa''
      (Some dbl_0_003) preset_fs
    = (Inr (),
       preset_fs\<lparr> positions_file := Some
         [tokenB_position,
          preset_position\<lparr> initialMarketCap := Some (6157265115545599 / 35184372088832),
                            initialEthValue := Some (1152921504606847 / 288230376151711744),
                            timestamp := 2000 \<rparr>] \<rparr>)"
    by (simp add: updateAndSavePosition_merge [OF findIndex_preset w])
       (simp add: loadPositions_def preset_fs_def preset_position_def merge_presets)
  moreover have "(100 * dbl_0_001 + 200 * dbl_0_003) / (dbl_0_001 + dbl_0_003) = 175"
    by (simp add: dbl_0_001_def dbl_0_003_def)
  moreover have "(6157265115545599 / 35184372088832 :: rat) \<noteq> 175" by simp
  ultimately show ?thesis by blast
qed

lemma array_get_Some:
  "array_get xs i = Some x \<Longrightarrow> 0 \<le> i \<and> nat i < length xs \<and> xs ! nat i = x"
  by (auto simp: array_get_def split: if_splits)

lemma splice1_in_range:
  assumes "0 \<le> i" and "nat i < length xs"
  shows "splice1 xs i = take (nat i) xs @ drop (Suc (nat i)) xs"
proof -
  from assms have "i \<le> int (length xs)" by linarith
  with assms(1) show ?thesis by (simp add: splice1_def Let_def min_def)
qed

lemma distinct_remove_nth:
  assumes "distinct (map g xs)" and "k < length xs"
  shows "g (xs ! k) \<notin> g ` set (take k xs @ drop (Suc k) xs)"
proof -
  have "map g xs = map g (take k xs) @ g (xs ! k) # map g (drop (Suc k) xs)"
    using assms(2) by (simp add: id_take_nth_drop [symmetric] flip: map_append list.map(2))
  with assms(1) have "distinct (map g (take k xs) @ g (xs ! k) # map g (drop (Suc k) xs))"
    by simp
  then show ?thesis by auto
qed

lemma execute_zapout_full:
  assumes "array_get (loadPositions fs) (positionIndex sess) = Some p"
    and "onchain p = Inr ()" and "writable fs"
  shows "execute_zapout 100 onchain sess fs =
     (sess\<lparr> positionIndex := max 0 (positionIndex sess - 1) \<rparr>,
      fs\<lparr> positions_file := Some (take (nat (positionIndex sess)) (loadPositions fs)
                                    @ drop (Suc (nat (positionIndex sess))) (loadPositions fs)) \<rparr>)"
  using assms array_get_Some [OF assms(1)]
  by (simp add: execute_zapout_def Let_def savePositions_ok splice1_in_range)

lemma execute_zapout_partial:
  assumes "array_get (loadPositions fs) (positionIndex sess) = Some p"
    and "onchain p = Inr ()" and "writable fs" and "percentage \<noteq> 100"
  shows "execute_zapout percentage onchain sess fs =
     (sess, fs\<lparr> positions_file := Some (loadPositions fs) \<rparr>)"
  using assms by (simp add: execute_zapout_def Let_def savePositions_ok)

text \<open>
  Claim C7: for the position the session shows, once the on-chain steps have
  succeeded and the write succeeds, a zap-out of \<open>10000\<close> bps (100 percent) removes
  that position from the ledger: the ledger is the old one without the entry at the
  index, one shorter, and when no two stored positions have the same token (in any
  canonical form \<open>canon\<close> of the address) no position of that token remains. Any other
  fraction leaves the ledger, and so every field of every position, as it was, and the
  session too.
\<close>

theorem execute_zapout_ledger:
  "array_get (loadPositions fs) (positionIndex sess) = Some p \<Longrightarrow>
   onchain p = Inr () \<Longrightarrow> writable fs \<Longrightarrow>
   (exitFractionBps percentage = 10000 \<longrightarrow>
      loadPositions (snd (execute_zapout percentage onchain sess fs))
        = take (nat (positionIndex sess)) (loadPositions fs)
          @ drop (Suc (nat (positionIndex sess))) (loadPositions fs)
      \<and> length (loadPositions (snd (execute_zapout percentage onchain sess fs)))
          = length (loadPositions fs) - 1
      \<and> (distinct (map (canon \<circ> tokenAddress) (loadPositions fs)) \<longrightarrow>
           canon (tokenAddress p)
             \<notin> (canon \<circ> tokenAddress)
                 ` set (loadPositions (snd (execute_zapout percentage onchain sess fs)))))
   \<and> (exitFractionBps percentage \<noteq> 10000 \<longrightarrow>
        loadPositions (snd (execute_zapout percentage onchain sess fs)) = loadPositions fs
        \<and> fst (execute_zapout percentage onchain sess fs) = sess)"
proof (intro conjI impI)
  assume p: "array_get (loadPositions fs) (positionIndex sess) = Some p"
    and ok: "onchain p = Inr ()" and w: "writable fs"
  note idx = array_get_Some [OF p]
  {
    assume "exitFractionBps percentage = 10000"
    then have full: "percentage = 100" by (simp add: exitFractionBps_def)
    show eq: "loadPositions (snd (execute_zapout percentage onchain sess fs))
        = take (nat (positionIndex sess)) (loadPositions fs)
          @ drop (Suc (nat (positionIndex sess))) (loadPositions fs)"
      by (simp add: full execute_zapout_full [of fs sess p onchain, OF p ok w]) (simp add: loadPositions_def)
    show "length (loadPositions (snd (execute_zapout percentage onchain sess fs)))
          = length (loadPositions fs) - 1"
      using idx by (simp add: eq)
    show "canon (tokenAddress p)
             \<notin> (canon \<circ> tokenAddress)
                 ` set (loadPositions (snd (execute_zapout percentage onchain sess fs)))"
      if "distinct (map (canon \<circ> tokenAddress) (loadPositions fs))"
      using distinct_remove_nth [OF that, of "nat (positionIndex sess)"] idx
      by (simp add: eq)
  }
  {
    assume "exitFractionBps percentage \<noteq> 10000"
    then have part: "percentage \<noteq> 100" by (simp add: exitFractionBps_def)
    show "loadPositions (snd (execute_zapout percentage onchain sess fs)) = loadPositions fs"
      by (simp add: execute_zapout_partial [of fs sess p onchain, OF p ok w part]) (simp add: loadPositions_def)
    show "fst (execute_zapout percentage onchain sess fs) = sess"
      by (simp add: execute_zapout_partial [of fs sess p onchain, OF p ok w part])
  }
qed

theorem execute_zapout_ledger_witness:
  "loadPositions (snd (execute_zapout 100 (\<lambda>p. Inr ()) \<lparr> positionIndex = 0 \<rparr> two_positions_fs))
     = [tokenB_position]
   \<and> ''0xA'' \<notin> tokenAddress
        ` set (loadPositions
                (snd (execute_zapout 100 (\<lambda>p. Inr ()) \<lparr> positionIndex = 0 \<rparr> two_positions_fs)))
   \<and> loadPositions (snd (execute_zapout 50 (\<lambda>p. Inr ()) \<lparr> positionIndex = 0 \<rparr> two_positions_fs))
     = [tokenA_position, tokenB_position]"
proof -
  have found: "array_get (loadPositions two_positions_fs) (positionIndex \<lparr> positionIndex = 0 \<rparr>)
      = Some tokenA_position"
    by (simp add: array_get_def loadPositions_def two_positions_fs_def)
  have w: "writable two_positions_fs" by (simp add: two_positions_fs_def)
  have d: "distinct (map (id \<circ> tokenAddress) (loadPositions two_positions_fs))"
    by (simp add: loadPositions_def two_positions_fs_def tokenA_position_def tokenB_position_def)
  have full: "loadPositions
        (snd (execute_zapout 100 (\<lambda>p. Inr ()) \<lparr> positionIndex = 0 \<rparr> two_positions_fs))
      = [tokenB_position]
    \<and> ''0xA'' \<notin> tokenAddress
        ` set (loadPositions
                (snd (execute_zapout 100 (\<lambda>p. Inr ()) \<lparr> positionIndex = 0 \<rparr> two_positions_fs)))"
    using execute_zapout_ledger [OF found _ w, of "\<lambda>p. Inr ()" 100 id] d
    by (simp add: exitFractionBps_def)
       (simp add: loadPositions_def two_positions_fs_def tokenA_position_def)
  have part: "loadPositions
        (snd (execute_zapout 50 (\<lambda>p. Inr ()) \<lparr> positionIndex = 0 \<rparr> two_positions_fs))
      = [tokenA_position, tokenB_position]"
    using execute_zapout_ledger [OF found _ w, of "\<lambda>p. Inr ()" 50 id]
    by (simp add: exitFractionBps_def) (simp add: loadPositions_def two_positions_fs_def)
  from full part show ?thesis by blast
qed

end
